theory Spec2Isabelle
  imports Main "HOL-Library.Word"
begin

section \<open>Values shared by all components\<close>

text \<open>
  A \<open>Uint8Array\<close> is a list of bytes.  Request headers are a JavaScript object
  (\<open>Record<string, string>\<close>): an association list in insertion order.  The
  \<open>Headers\<close> object of a response is a list of pairs, read through \<open>get\<close>.
\<close>

type_synonym bytes = "8 word list"
type_synonym headers_obj = "(string \<times> string) list"
type_synonym resp_headers = "(string \<times> string) list"

text \<open>
  JavaScript values that occur as request bodies and decoded response data
  (\<open>unknown\<close> in the source).  \<open>JFormData\<close> is a host object without enumerable
  own properties, \<open>JBytes\<close> a \<open>Uint8Array\<close>, \<open>JBigInt\<close> a value that
  \<open>JSON.stringify\<close> refuses.  Numbers are restricted to integers.
\<close>

datatype jsval =
    JUndefined
  | JNull
  | JBool bool
  | JNum int
  | JBigInt int
  | JStr string
  | JArr "jsval list"
  | JObj "(string \<times> jsval) list"
  | JFormData "(string \<times> string) list"
  | JBytes bytes

text \<open>
  Thrown values are error objects: \<open>exn_is_api\<close> says whether the object is an
  instance of \<open>ApiError\<close> (types.ts); \<open>code\<close> and \<open>status\<close> may be absent.
\<close>

record exn =
  exn_is_api :: bool
  exn_message :: string
  exn_code :: "string option"
  exn_status :: "nat option"
  exn_details :: jsval

section \<open>stream.ts\<close>

text \<open>
  One \<open>reader.read()\<close>: it resolves to \<open>{done: false, value}\<close> (the value may be
  undefined), to \<open>{done: true}\<close>, or it rejects.  A body is the list of the results
  its reader will give; a reader whose list is used up never answers again.
\<close>

datatype read_result = ReadValue "bytes option" | ReadDone | ReadError exn

text \<open>
  A handler is a caller's callback: given its argument it returns (\<open>None\<close>) or
  throws (\<open>Some e\<close>).  Every handler of \<open>StreamHandlers\<close> is optional.
\<close>

record stream_handlers =
  onStart :: "(nat \<times> resp_headers \<Rightarrow> exn option) option"
  onChunk :: "(bytes \<Rightarrow> exn option) option"
  onError :: "(exn \<Rightarrow> exn option) option"
  onComplete :: "(unit \<Rightarrow> exn option) option"

text \<open>The observable calls of \<open>streamResponse\<close>, in the order they are made.\<close>

datatype stream_event =
    EvStart nat resp_headers
  | EvChunk bytes
  | EvError exn
  | EvComplete
  | EvReleaseLock

text \<open>How an asynchronous function ends: it resolves, it rejects, or it never settles.\<close>

datatype 'a outcome = Resolved 'a | Rejected exn | Pending

text \<open>
  \<open>h?.(x)\<close>: nothing happens when the handler is absent; otherwise the call is
  recorded and may throw.
\<close>

definition call_opt :: "('a \<Rightarrow> exn option) option \<Rightarrow> 'a \<Rightarrow> stream_event \<Rightarrow> stream_event list \<times> exn option" where
  "call_opt h x ev = (case h of None \<Rightarrow> ([], None) | Some f \<Rightarrow> ([ev], f x))"

text \<open>
  The \<open>while (true)\<close> loop of \<open>streamResponse\<close>:
  \<^verbatim>\<open>const { done, value } = await reader.read(); if (done) break; if (value) onChunk?.(value);\<close>
  A \<open>Uint8Array\<close> is an object, hence truthy whatever its length; only an
  undefined value is skipped.
\<close>

fun read_loop :: "stream_handlers \<Rightarrow> read_result list \<Rightarrow> stream_event list \<times> unit outcome" where
  "read_loop h [] = ([], Pending)"
| "read_loop h (ReadDone # rs) = ([], Resolved ())"
| "read_loop h (ReadError e # rs) = ([], Rejected e)"
| "read_loop h (ReadValue None # rs) = read_loop h rs"
| "read_loop h (ReadValue (Some v) # rs) =
     (case call_opt (onChunk h) v (EvChunk v) of
        (evs, Some e) \<Rightarrow> (evs, Rejected e)
      | (evs, None) \<Rightarrow> (case read_loop h rs of (evs', r) \<Rightarrow> (evs @ evs', r)))"

text \<open>
  The \<open>try \<dots> catch \<dots> finally\<close> around the loop: after the loop \<open>onComplete\<close>;
  on any throw \<open>onError\<close> and the error is thrown again (an error thrown by
  \<open>onError\<close> itself replaces it); \<open>releaseLock\<close> on every exit that is reached.
\<close>

definition consume :: "stream_handlers \<Rightarrow> read_result list \<Rightarrow> stream_event list \<times> unit outcome" where
  "consume h rs =
     (case read_loop h rs of
        (evs, Pending) \<Rightarrow> (evs, Pending)
      | (evs, Resolved u) \<Rightarrow>
          (case call_opt (onComplete h) () EvComplete of
             (evs', None) \<Rightarrow> (evs @ evs' @ [EvReleaseLock], Resolved ())
           | (evs', Some e) \<Rightarrow>
               (case call_opt (onError h) e (EvError e) of
                  (evs'', None) \<Rightarrow> (evs @ evs' @ evs'' @ [EvReleaseLock], Rejected e)
                | (evs'', Some e') \<Rightarrow> (evs @ evs' @ evs'' @ [EvReleaseLock], Rejected e')))
      | (evs, Rejected e) \<Rightarrow>
          (case call_opt (onError h) e (EvError e) of
             (evs'', None) \<Rightarrow> (evs @ evs'' @ [EvReleaseLock], Rejected e)
           | (evs'', Some e') \<Rightarrow> (evs @ evs'' @ [EvReleaseLock], Rejected e')))"

text \<open>
  \<open>streamResponse(response, handlers)\<close>.  Of the response it uses the status, the
  headers and the body (\<open>None\<close>: \<open>response.body\<close> is null).
\<close>

definition streamResponse ::
  "nat \<Rightarrow> resp_headers \<Rightarrow> read_result list option \<Rightarrow> stream_handlers \<Rightarrow> stream_event list \<times> unit outcome" where
  "streamResponse status hdrs body h =
     (case call_opt (onStart h) (status, hdrs) (EvStart status hdrs) of
        (evs, Some e) \<Rightarrow> (evs, Rejected e)
      | (evs, None) \<Rightarrow>
          (case body of
             None \<Rightarrow>
               (case call_opt (onComplete h) () EvComplete of
                  (evs', None) \<Rightarrow> (evs @ evs', Resolved ())
                | (evs', Some e) \<Rightarrow> (evs @ evs', Rejected e))
           | Some rs \<Rightarrow> (case consume h rs of (evs', r) \<Rightarrow> (evs @ evs', r))))"

section \<open>types.ts and errors.ts\<close>

text \<open>
  \<open>ApiErrorShape\<close> is \<open>{code, message, details?}\<close>.  When a failed response carries
  a decoded object that has a \<open>code\<close> property, that object itself is used as the
  shape (\<open>BodyShape\<close>, the properties of the object).
\<close>

datatype api_error_shape =
    ErrorShape string string jsval
  | BodyShape "(string \<times> jsval) list"

text \<open>
  \<open>ApiResponse\<close>: \<open>{ok: true, status, headers, data}\<close> or
  \<open>{ok: false, status, headers | null, error}\<close>.
\<close>

datatype api_response =
    Success nat resp_headers jsval
  | Failure nat "resp_headers option" api_error_shape

fun ok :: "api_response \<Rightarrow> bool" where
  "ok (Success st hs d) = True"
| "ok (Failure st hs e) = False"

text \<open>
  \<open>toApiError(e, fallbackCode)\<close>: an \<open>ApiError\<close> is returned as it is; any other
  error object becomes \<open>new ApiError(message, code ?? fallbackCode, status, details)\<close>.
\<close>

definition toApiError :: "exn \<Rightarrow> string \<Rightarrow> exn" where
  "toApiError e fallbackCode =
     (if exn_is_api e then e
      else \<lparr> exn_is_api = True,
             exn_message = exn_message e,
             exn_code = Some (case exn_code e of None \<Rightarrow> fallbackCode | Some c \<Rightarrow> c),
             exn_status = exn_status e,
             exn_details = exn_details e \<rparr>)"

text \<open>\<open>makeErrorShape\<close>; the constructor of \<open>ApiError\<close> defaults the code to \<open>ERR_API\<close>.\<close>

definition makeErrorShape :: "exn \<Rightarrow> api_error_shape" where
  "makeErrorShape error =
     ErrorShape (case exn_code error of None \<Rightarrow> ''ERR_API'' | Some c \<Rightarrow> c)
                (exn_message error) (exn_details error)"

section \<open>JSON.stringify and crypto.ts\<close>

text \<open>Decimal digits of a number, as \<open>String(n)\<close> prints an integer.\<close>

definition digit_char :: "nat \<Rightarrow> char" where
  "digit_char d = char_of (48 + d)"

function show_nat :: "nat \<Rightarrow> string" where
  "show_nat n = (if n < 10 then [digit_char n] else show_nat (n div 10) @ [digit_char (n mod 10)])"
  by pat_completeness auto
termination
  by (relation "measure id") auto

definition show_int :: "int \<Rightarrow> string" where
  "show_int i = (if i < 0 then CHR ''-'' # show_nat (nat (- i)) else show_nat (nat i))"

text \<open>
  The quoting of a string by \<open>JSON.stringify\<close>: the double quote and the backslash
  are escaped; a control character is written \<open>\u00XX\<close> (the short forms
  \<open>\n\<close>, \<open>\t\<close> \<dots> are written in the long form here).
\<close>

definition hex_char :: "nat \<Rightarrow> char" where
  "hex_char d = (if d < 10 then char_of (48 + d) else char_of (87 + d))"

definition quote_char :: "char \<Rightarrow> string" where
  "quote_char c =
     (if c = CHR 0x22 then [CHR 0x5C, CHR 0x22]
      else if c = CHR 0x5C then [CHR 0x5C, CHR 0x5C]
      else if of_char c < (32::nat)
        then [CHR 0x5C, CHR ''u'', CHR ''0'', CHR ''0'',
              hex_char (of_char c div 16), hex_char (of_char c mod 16)]
      else [c])"

definition quote_js :: "string \<Rightarrow> string" where
  "quote_js s = [CHR 0x22] @ concat (map quote_char s) @ [CHR 0x22]"

fun join_comma :: "string list \<Rightarrow> string" where
  "join_comma [] = []"
| "join_comma [x] = x"
| "join_comma (x # y # ys) = x @ '','' @ join_comma (y # ys)"

text \<open>
  The result of \<open>JSON.stringify\<close>: a text, the value \<open>undefined\<close>, or a thrown
  \<open>TypeError\<close> (here for a BigInt; a cyclic object is not a \<open>jsval\<close>).
\<close>

datatype str_res = Text string | Undef | Throws

text \<open>
  A typed array is serialized as an object whose keys are the indices.
\<close>

fun bytes_props :: "nat \<Rightarrow> bytes \<Rightarrow> string list" where
  "bytes_props i [] = []"
| "bytes_props i (b # bs) = (quote_js (show_nat i) @ '':'' @ show_nat (unat b)) # bytes_props (Suc i) bs"

text \<open>
  \<open>JSON.stringify\<close> on \<open>jsval\<close>.  In an array \<open>undefined\<close> is written \<open>null\<close>; in
  an object a property whose value is \<open>undefined\<close> is left out; a \<open>FormData\<close> has no
  enumerable own property and is written \<open>{}\<close>.  \<open>stringify_elems\<close> and
  \<open>stringify_props\<close> give the serialized members, or \<open>None\<close> when one throws.
\<close>

fun stringify :: "jsval \<Rightarrow> str_res"
  and stringify_elems :: "jsval list \<Rightarrow> string list option"
  and stringify_props :: "(string \<times> jsval) list \<Rightarrow> string list option" where
  "stringify JUndefined = Undef"
| "stringify JNull = Text ''null''"
| "stringify (JBool b) = Text (if b then ''true'' else ''false'')"
| "stringify (JNum n) = Text (show_int n)"
| "stringify (JBigInt n) = Throws"
| "stringify (JStr s) = Text (quote_js s)"
| "stringify (JArr xs) =
     (case stringify_elems xs of None \<Rightarrow> Throws | Some ts \<Rightarrow> Text (''['' @ join_comma ts @ '']''))"
| "stringify (JObj ps) =
     (case stringify_props ps of None \<Rightarrow> Throws | Some ts \<Rightarrow> Text (''{'' @ join_comma ts @ ''}''))"
| "stringify (JFormData fs) = Text ''{}''"
| "stringify (JBytes bs) = Text (''{'' @ join_comma (bytes_props 0 bs) @ ''}'')"
| "stringify_elems [] = Some []"
| "stringify_elems (x # xs) =
     (case stringify x of
        Throws \<Rightarrow> None
      | Undef \<Rightarrow> map_option (\<lambda>ts. ''null'' # ts) (stringify_elems xs)
      | Text t \<Rightarrow> map_option (\<lambda>ts. t # ts) (stringify_elems xs))"
| "stringify_props [] = Some []"
| "stringify_props ((k, v) # ps) =
     (case stringify v of
        Throws \<Rightarrow> None
      | Undef \<Rightarrow> stringify_props ps
      | Text t \<Rightarrow> map_option (\<lambda>ts. (quote_js k @ '':'' @ t) # ts) (stringify_props ps))"

definition type_error :: "string \<Rightarrow> exn" where
  "type_error msg = \<lparr> exn_is_api = False, exn_message = msg, exn_code = None,
                      exn_status = None, exn_details = JUndefined \<rparr>"

text \<open>\<open>TextEncoder.encode\<close> and \<open>TextDecoder.decode\<close>: a \<open>string\<close> is already a list of bytes.\<close>

definition textEncode :: "string \<Rightarrow> bytes" where
  "textEncode s = map (\<lambda>c. of_nat (of_char c)) s"

definition textDecode :: "bytes \<Rightarrow> string" where
  "textDecode bs = map (\<lambda>b. char_of (unat b)) bs"

text \<open>
  \<open>encodeJson = (value) => textEncoder.encode(JSON.stringify(value))\<close>; encoding
  \<open>undefined\<close> gives the empty array.
\<close>

definition encodeJson :: "jsval \<Rightarrow> exn + bytes" where
  "encodeJson v =
     (case stringify v of
        Throws \<Rightarrow> Inl (type_error ''Do not know how to serialize a BigInt'')
      | Undef \<Rightarrow> Inr []
      | Text t \<Rightarrow> Inr (textEncode t))"

text \<open>
  \<open>decodeJson = (data) => JSON.parse(textDecoder.decode(data))\<close>, over the parser
  \<open>JSON.parse\<close> of the platform.
\<close>

definition decodeJson :: "(string \<Rightarrow> exn + jsval) \<Rightarrow> bytes \<Rightarrow> exn + jsval" where
  "decodeJson json_parse data = json_parse (textDecode data)"

text \<open>An \<open>EncryptionAdapter\<close>: both operations return a promise that may reject.\<close>

record encryption_adapter =
  encrypt :: "bytes \<Rightarrow> exn + bytes"
  decrypt :: "bytes \<Rightarrow> exn + bytes"

section \<open>cache.ts\<close>

text \<open>
  \<open>LRUCache\<close> of the library \<open>lru-cache\<close>, by its documented behaviour: at most
  \<open>max\<close> entries, kept here from the most to the least recently used; \<open>get\<close> and
  \<open>set\<close> make their key the most recent one, and \<open>set\<close> drops the least recent
  entries beyond \<open>max\<close>.
\<close>

record 'v lru =
  lru_max :: nat
  lru_items :: "(string \<times> 'v) list"

definition lru_new :: "nat \<Rightarrow> 'v lru" where
  "lru_new m = \<lparr> lru_max = m, lru_items = [] \<rparr>"

definition lru_delete :: "string \<Rightarrow> 'v lru \<Rightarrow> 'v lru" where
  "lru_delete k c = c\<lparr> lru_items := filter (\<lambda>p. fst p \<noteq> k) (lru_items c) \<rparr>"

definition lru_get :: "string \<Rightarrow> 'v lru \<Rightarrow> 'v option \<times> 'v lru" where
  "lru_get k c =
     (case map_of (lru_items c) k of
        None \<Rightarrow> (None, c)
      | Some v \<Rightarrow> (Some v, c\<lparr> lru_items := (k, v) # filter (\<lambda>p. fst p \<noteq> k) (lru_items c) \<rparr>))"

definition lru_set :: "string \<Rightarrow> 'v \<Rightarrow> 'v lru \<Rightarrow> 'v lru" where
  "lru_set k v c =
     c\<lparr> lru_items := take (lru_max c) ((k, v) # filter (\<lambda>p. fst p \<noteq> k) (lru_items c)) \<rparr>"

definition lru_clear :: "'v lru \<Rightarrow> 'v lru" where
  "lru_clear c = c\<lparr> lru_items := [] \<rparr>"

text \<open>The entries of \<open>LruCacheAdapter\<close>: \<open>{value, expiresAt?}\<close>; times are epoch milliseconds.\<close>

record 'v cache_entry =
  ce_value :: 'v
  ce_expiresAt :: "int option"

type_synonym 'v cache = "'v cache_entry lru"

text \<open>\<open>new LruCacheAdapter(max = 500)\<close>.\<close>

definition LruCacheAdapter_new :: "'v cache" where
  "LruCacheAdapter_new = lru_new 500"

text \<open>
  \<open>entry.expiresAt && Date.now() >= entry.expiresAt\<close>: an absent expiry and the
  expiry \<open>0\<close> are falsy.
\<close>

definition entry_expired :: "int \<Rightarrow> 'v cache_entry \<Rightarrow> bool" where
  "entry_expired now entry =
     (case ce_expiresAt entry of None \<Rightarrow> False | Some t \<Rightarrow> t \<noteq> 0 \<and> now \<ge> t)"

definition cache_get :: "int \<Rightarrow> string \<Rightarrow> 'v cache \<Rightarrow> 'v option \<times> 'v cache" where
  "cache_get now key c =
     (case lru_get key c of
        (None, c') \<Rightarrow> (None, c')
      | (Some entry, c') \<Rightarrow>
          if entry_expired now entry then (None, lru_delete key c')
          else (Some (ce_value entry), c'))"

text \<open>\<open>const expiresAt = ttlMs ? Date.now() + ttlMs : undefined\<close>.\<close>

definition cache_set :: "int \<Rightarrow> string \<Rightarrow> 'v \<Rightarrow> int option \<Rightarrow> 'v cache \<Rightarrow> 'v cache" where
  "cache_set now key v ttlMs c =
     lru_set key \<lparr> ce_value = v,
                   ce_expiresAt = (case ttlMs of None \<Rightarrow> None
                                   | Some t \<Rightarrow> if t \<noteq> 0 then Some (now + t) else None) \<rparr> c"

definition cache_delete :: "string \<Rightarrow> 'v cache \<Rightarrow> 'v cache" where
  "cache_delete key c = lru_delete key c"

definition cache_clear :: "'v cache \<Rightarrow> 'v cache" where
  "cache_clear c = lru_clear c"

text \<open>
  \<open>InFlightDeduper\<close>: a \<open>Map\<close> from keys to promises; a promise is named by its
  number.  \<open>set\<close> also registers \<open>promise.finally(() => this.map.delete(key))\<close>;
  that callback is \<open>inflight_finally\<close>, run when the promise settles.
\<close>

type_synonym inflight_map = "string \<rightharpoonup> nat"

definition inflight_get :: "string \<Rightarrow> inflight_map \<Rightarrow> nat option" where
  "inflight_get key m = m key"

definition inflight_set :: "string \<Rightarrow> nat \<Rightarrow> inflight_map \<Rightarrow> inflight_map" where
  "inflight_set key p m = m(key \<mapsto> p)"

definition inflight_finally :: "string \<Rightarrow> inflight_map \<Rightarrow> inflight_map" where
  "inflight_finally key m = m(key := None)"

section \<open>auth.ts\<close>

text \<open>
  \<open>TokenPair\<close>: the access token may be null; the property \<open>refreshToken\<close> may be
  absent (\<open>None\<close>), null (\<open>Some None\<close>) or a string.
\<close>

record token_pair =
  tp_accessToken :: "string option"
  tp_refreshToken :: "string option option"

text \<open>
  \<open>TokenMetadata\<close> as the code fills it: the decoded payload (of which only the
  numeric \<open>exp\<close> claim is read) and the expiry in milliseconds.
\<close>

record jwt_payload =
  jwt_exp :: "int option"

record token_metadata =
  tm_payload :: "jwt_payload option"
  tm_accessTokenExpiresAt :: "int option"

text \<open>The object held by \<open>MemoryTokenStorage\<close>: \<open>TokenPair & TokenMetadata\<close>.\<close>

record token_store =
  ts_accessToken :: "string option"
  ts_refreshToken :: "string option"
  ts_payload :: "jwt_payload option"
  ts_accessTokenExpiresAt :: "int option"

definition MemoryTokenStorage_new :: token_store where
  "MemoryTokenStorage_new =
     \<lparr> ts_accessToken = None, ts_refreshToken = None,
       ts_payload = None, ts_accessTokenExpiresAt = None \<rparr>"

text \<open>
  \<open>setTokens(tokens) { this.tokens = { ...this.tokens, ...tokens } }\<close>, called by
  \<open>AuthManager.setTokens\<close> with \<open>{ ...tokens, ...meta }\<close>: the properties present in
  the argument replace the stored ones, an absent \<open>refreshToken\<close> keeps the old one.
\<close>

definition storage_setTokens :: "token_pair \<Rightarrow> token_metadata \<Rightarrow> token_store \<Rightarrow> token_store" where
  "storage_setTokens tokens meta st =
     \<lparr> ts_accessToken = tp_accessToken tokens,
       ts_refreshToken = (case tp_refreshToken tokens of None \<Rightarrow> ts_refreshToken st | Some r \<Rightarrow> r),
       ts_payload = tm_payload meta,
       ts_accessTokenExpiresAt = tm_accessTokenExpiresAt meta \<rparr>"


text \<open>A string is truthy when it is neither null nor empty.\<close>

definition truthy :: "string option \<Rightarrow> bool" where
  "truthy s = (case s of None \<Rightarrow> False | Some t \<Rightarrow> t \<noteq> [])"

text \<open>
  \<open>defaultIsTokenExpired\<close>: \<open>if (!meta.accessTokenExpiresAt) return false;
  return Date.now() >= meta.accessTokenExpiresAt\<close>.
\<close>

definition defaultIsTokenExpired :: "int \<Rightarrow> token_metadata \<Rightarrow> bool" where
  "defaultIsTokenExpired now meta =
     (case tm_accessTokenExpiresAt meta of None \<Rightarrow> False | Some t \<Rightarrow> t \<noteq> 0 \<and> now \<ge> t)"

text \<open>
  \<open>AuthConfig\<close>: the storage (a reference to a \<open>TokenStorage\<close> object, see the
  client below), the refresh callback and the expiry predicate.
\<close>

record auth_config =
  ac_storage :: "nat option"
  ac_onRefresh :: "(token_pair \<Rightarrow> exn + token_pair) option"
  ac_isTokenExpired :: "(token_metadata \<Rightarrow> bool) option"

text \<open>
  \<open>enrichMetadata\<close>, over \<open>decodeJwt\<close> of the library \<open>jose\<close>: a token that does
  not decode gives no expiry, and nothing is thrown.
\<close>

definition enrichMetadata :: "(string \<Rightarrow> exn + jwt_payload) \<Rightarrow> string option \<Rightarrow> token_metadata" where
  "enrichMetadata decodeJwt accessToken =
     (case accessToken of
        None \<Rightarrow> \<lparr> tm_payload = None, tm_accessTokenExpiresAt = None \<rparr>
      | Some t \<Rightarrow>
          if t = [] then \<lparr> tm_payload = None, tm_accessTokenExpiresAt = None \<rparr>
          else (case decodeJwt t of
                  Inl e \<Rightarrow> \<lparr> tm_payload = None, tm_accessTokenExpiresAt = None \<rparr>
                | Inr p \<Rightarrow> \<lparr> tm_payload = Some p,
                             tm_accessTokenExpiresAt = map_option (\<lambda>x. x * 1000) (jwt_exp p) \<rparr>))"

text \<open>\<open>AuthManager.setTokens\<close> and \<open>AuthManager.clear\<close>.\<close>

definition AuthManager_setTokens :: "(string \<Rightarrow> exn + jwt_payload) \<Rightarrow> token_pair \<Rightarrow> token_store \<Rightarrow> token_store" where
  "AuthManager_setTokens decodeJwt tokens st =
     storage_setTokens tokens (enrichMetadata decodeJwt (tp_accessToken tokens)) st"


text \<open>
  \<open>AuthManager.getValidAccessToken\<close>: the token (or null), or the rejection of the
  refresh callback, with the storage afterwards.
\<close>

definition getValidAccessToken ::
  "auth_config \<Rightarrow> (string \<Rightarrow> exn + jwt_payload) \<Rightarrow> int \<Rightarrow> token_store \<Rightarrow> (exn + string option) \<times> token_store" where
  "getValidAccessToken cfg decodeJwt now st =
     (if \<not> truthy (ts_accessToken st) then (Inr None, st)
      else
        let meta = enrichMetadata decodeJwt (ts_accessToken st);
            isExpired = (case ac_isTokenExpired cfg of None \<Rightarrow> defaultIsTokenExpired now | Some f \<Rightarrow> f)
        in if \<not> isExpired meta then (Inr (ts_accessToken st), st)
           else (case ac_onRefresh cfg of
                   None \<Rightarrow> (Inr None, st)
                 | Some refresh \<Rightarrow>
                     if truthy (ts_refreshToken st)
                     then (case refresh \<lparr> tp_accessToken = ts_accessToken st,
                                          tp_refreshToken = Some (ts_refreshToken st) \<rparr> of
                             Inl e \<Rightarrow> (Inl e, st)
                           | Inr updated \<Rightarrow>
                               (Inr (tp_accessToken updated),
                                AuthManager_setTokens decodeJwt updated st))
                     else (Inr None, st)))"

section \<open>client.ts: requests, options and the platform\<close>

datatype http_method = GET | POST | PUT | DELETE | PATCH | FORMDATA

fun method_str :: "http_method \<Rightarrow> string" where
  "method_str GET = ''GET''"
| "method_str POST = ''POST''"
| "method_str PUT = ''PUT''"
| "method_str DELETE = ''DELETE''"
| "method_str PATCH = ''PATCH''"
| "method_str FORMDATA = ''FORMDATA''"

text \<open>A query value: \<open>string | number | boolean | undefined | null\<close>.\<close>

datatype qval = QStr string | QNum int | QBool bool | QNull | QUndefined

text \<open>\<open>ApiRequest\<close>; an absent body is \<open>JUndefined\<close>, the signal is an opaque token.\<close>

record api_request =
  req_url :: string
  req_method :: "http_method option"
  req_headers :: "headers_obj option"
  req_query :: "(string \<times> qval) list option"
  req_body :: jsval
  req_signal :: "nat option"
  req_cacheKey :: "string option"
  req_stream :: bool
  req_streamHandlers :: "stream_handlers option"

text \<open>What \<open>fetch\<close> receives as \<open>init\<close>, and the part of a \<open>Response\<close> the client reads.\<close>

datatype body_init = BodyValue jsval | BodyBlob bytes | BodyText string

record request_init =
  init_method :: string
  init_headers :: headers_obj
  init_signal :: "nat option"
  init_body :: "body_init option"

record response =
  resp_status :: nat
  resp_headers :: resp_headers
  resp_body :: "read_result list option"
  resp_arrayBuffer :: "exn + bytes"
  resp_json :: "exn + jsval"
  resp_text :: "exn + string"

definition response_ok :: "response \<Rightarrow> bool" where
  "response_ok r = (200 \<le> resp_status r \<and> resp_status r \<le> 299)"

type_synonym fetch_fn = "string \<Rightarrow> request_init \<Rightarrow> exn + response"

text \<open>
  The platform and the libraries the client calls: \<open>new URL(path, base)\<close> (the
  parsed URL is kept as its serialization), \<open>url.searchParams.set\<close>,
  \<open>window.location.origin\<close> when there is a window, \<open>decodeJwt\<close>, \<open>JSON.parse\<close>,
  \<open>nanoid\<close>, the global \<open>fetch\<close>, and \<open>new AesGcmEncryption(secret)\<close>.
\<close>

record env =
  env_newURL :: "string \<Rightarrow> string \<Rightarrow> exn + string"
  env_searchParamsSet :: "string \<Rightarrow> string \<Rightarrow> string \<Rightarrow> string"
  env_origin :: "string option"
  env_decodeJwt :: "string \<Rightarrow> exn + jwt_payload"
  env_jsonParse :: "string \<Rightarrow> exn + jsval"
  env_nanoid :: "nat \<Rightarrow> string"
  env_fetch :: fetch_fn
  env_aesGcm :: "jsval \<Rightarrow> encryption_adapter"

text \<open>\<open>ClientOptions\<close>: every property is optional; \<open>cache\<close> is an adapter (a reference) or \<open>false\<close>.\<close>

datatype cache_opt = CacheOff | CacheExternal nat

record client_options =
  co_baseUrl :: "string option"
  co_gatewayPath :: "string option"
  co_fetch :: "fetch_fn option"
  co_defaultHeaders :: "headers_obj option"
  co_auth :: "auth_config option"
  co_encryption :: "encryption_adapter option"
  co_cache :: "cache_opt option"
  co_cacheTtlMs :: "int option"
  co_enableInFlightDedup :: "bool option"

record internal_options =
  io_baseUrl :: "string option"
  io_gatewayPath :: "string option"
  io_fetch :: fetch_fn
  io_defaultHeaders :: headers_obj
  io_auth :: auth_config
  io_encryption :: "encryption_adapter option"
  io_cache :: "cache_opt option"
  io_cacheTtlMs :: int
  io_enableInFlightDedup :: bool

section \<open>client.ts: the helpers\<close>

text \<open>Assignment to a property, and the spread \<open>{...a, ...b}\<close>, on objects kept in insertion order.\<close>

fun obj_set :: "string \<Rightarrow> 'v \<Rightarrow> (string \<times> 'v) list \<Rightarrow> (string \<times> 'v) list" where
  "obj_set k v [] = [(k, v)]"
| "obj_set k v ((k', v') # ps) = (if k = k' then (k, v) # ps else (k', v') # obj_set k v ps)"

definition obj_merge :: "(string \<times> 'v) list \<Rightarrow> (string \<times> 'v) list \<Rightarrow> (string \<times> 'v) list" where
  "obj_merge a b = fold (\<lambda>p acc. obj_set (fst p) (snd p) acc) b a"

text \<open>\<open>String(v)\<close> on the query values that are sent.\<close>

fun qval_String :: "qval \<Rightarrow> string" where
  "qval_String (QStr s) = s"
| "qval_String (QNum n) = show_int n"
| "qval_String (QBool b) = (if b then ''true'' else ''false'')"
| "qval_String QNull = ''null''"
| "qval_String QUndefined = ''undefined''"

definition buildUrl :: "env \<Rightarrow> string option \<Rightarrow> string \<Rightarrow> (string \<times> qval) list option \<Rightarrow> exn + string" where
  "buildUrl env baseUrl path query =
     (case env_newURL env path
             (case baseUrl of
                Some b \<Rightarrow> b
              | None \<Rightarrow> (case env_origin env of Some orig \<Rightarrow> orig | None \<Rightarrow> ''http://localhost'')) of
        Inl e \<Rightarrow> Inl e
      | Inr url \<Rightarrow>
          Inr (case query of
                 None \<Rightarrow> url
               | Some q \<Rightarrow>
                   fold (\<lambda>kv u. if snd kv = QUndefined \<or> snd kv = QNull then u
                                 else env_searchParamsSet env (fst kv) (qval_String (snd kv)) u) q url))"

text \<open>\<open>methodToInit\<close>: the \<open>body\<close> property of the result, if any; serialization may throw.\<close>

definition methodToInit :: "http_method \<Rightarrow> jsval \<Rightarrow> encryption_adapter option \<Rightarrow> exn + body_init option" where
  "methodToInit method body encryption =
     (if method = GET \<or> method = DELETE then Inr None
      else if method = FORMDATA then Inr (if body = JUndefined then None else Some (BodyValue body))
      else if encryption \<noteq> None then
        (case encodeJson body of Inl e \<Rightarrow> Inl e | Inr data \<Rightarrow> Inr (Some (BodyBlob data)))
      else
        (case stringify body of
           Throws \<Rightarrow> Inl (type_error ''Do not know how to serialize a BigInt'')
         | Undef \<Rightarrow> Inr None
         | Text t \<Rightarrow> Inr (Some (BodyText t))))"

definition defaultHeadersFor :: "http_method \<Rightarrow> encryption_adapter option \<Rightarrow> headers_obj" where
  "defaultHeadersFor method encryption =
     (if method \<noteq> GET \<and> method \<noteq> DELETE \<and> method \<noteq> FORMDATA
      then [(''content-type'', if encryption \<noteq> None then ''application/octet-stream'' else ''application/json'')]
      else [])
     @ [(''accept'', ''application/json, application/octet-stream;q=0.8, */*;q=0.5'')]"

text \<open>\<open>String.prototype.includes\<close>.\<close>

fun str_includes :: "string \<Rightarrow> string \<Rightarrow> bool" where
  "str_includes [] p = (p = [])"
| "str_includes (c # cs) p = (take (length p) (c # cs) = p \<or> str_includes cs p)"

section \<open>client.ts: \<open>ApiClient.execute\<close>\<close>

text \<open>
  The headers of \<open>execute\<close>:
  \<open>{...defaultHeadersFor(method, encryption), ...defaultHeaders, ...req.headers}\<close>, then
  \<open>if (token) headers["authorization"] = `Bearer ${token}`\<close>.
\<close>

definition merged_headers :: "internal_options \<Rightarrow> http_method \<Rightarrow> api_request \<Rightarrow> headers_obj" where
  "merged_headers opts method req =
     obj_merge (obj_merge (defaultHeadersFor method (io_encryption opts)) (io_defaultHeaders opts))
               (case req_headers req of None \<Rightarrow> [] | Some h \<Rightarrow> h)"

definition with_authorization :: "string option \<Rightarrow> headers_obj \<Rightarrow> headers_obj" where
  "with_authorization token headers =
     (case token of
        None \<Rightarrow> headers
      | Some t \<Rightarrow> if t = [] then headers else obj_set ''authorization'' (''Bearer '' @ t) headers)"

text \<open>The object \<open>{id: nanoid(12), url, method, headers, payload: encrypted}\<close> of gateway mode.\<close>

definition envelope :: "env \<Rightarrow> string \<Rightarrow> http_method \<Rightarrow> headers_obj \<Rightarrow> bytes \<Rightarrow> jsval" where
  "envelope env url method headers encrypted =
     JObj [(''id'', JStr (env_nanoid env 12)),
           (''url'', JStr url),
           (''method'', JStr (method_str method)),
           (''headers'', JObj (map (\<lambda>kv. (fst kv, JStr (snd kv))) headers)),
           (''payload'', JBytes encrypted)]"

text \<open>
  \<open>if (this.options.encryption && init.body instanceof Blob) {\<dots>}\<close>: the body is
  encrypted; with a (truthy) gateway path the envelope around it is encrypted again.
\<close>

definition encrypt_body ::
  "internal_options \<Rightarrow> env \<Rightarrow> string \<Rightarrow> http_method \<Rightarrow> headers_obj \<Rightarrow> body_init option \<Rightarrow> exn + body_init option" where
  "encrypt_body opts env url method headers body =
     (case io_encryption opts of
        None \<Rightarrow> Inr body
      | Some enc \<Rightarrow>
          (case body of
             Some (BodyBlob data) \<Rightarrow>
               (case encrypt enc data of
                  Inl e \<Rightarrow> Inl e
                | Inr encrypted \<Rightarrow>
                    if truthy (io_gatewayPath opts) then
                      (case encodeJson (envelope env url method headers encrypted) of
                         Inl e \<Rightarrow> Inl e
                       | Inr env_bytes \<Rightarrow>
                           (case encrypt enc env_bytes of
                              Inl e \<Rightarrow> Inl e
                            | Inr cipher \<Rightarrow> Inr (Some (BodyBlob cipher))))
                    else Inr (Some (BodyBlob encrypted)))
           | _ \<Rightarrow> Inr body))"

text \<open>
  The first argument of \<open>fetch\<close>:
  \<open>this.options.gatewayPath ? buildUrl(this.options.baseUrl, this.options.gatewayPath) : url\<close>.
\<close>

definition fetch_target :: "internal_options \<Rightarrow> env \<Rightarrow> string \<Rightarrow> exn + string" where
  "fetch_target opts env url =
     (case io_gatewayPath opts of
        None \<Rightarrow> Inr url
      | Some g \<Rightarrow> if g = [] then Inr url else buildUrl env (io_baseUrl opts) g None)"

text \<open>
  The first \<open>try\<close> block of \<open>execute\<close>: the response or the caught error, and the
  calls of \<open>fetch\<close> that were made (none or one), each with its two arguments.
\<close>

definition transport ::
  "internal_options \<Rightarrow> env \<Rightarrow> string \<Rightarrow> http_method \<Rightarrow> headers_obj \<Rightarrow> api_request
     \<Rightarrow> (exn + response) \<times> (string \<times> request_init) list" where
  "transport opts env url method headers req =
     (case methodToInit method (req_body req) (io_encryption opts) of
        Inl e \<Rightarrow> (Inl e, [])
      | Inr body \<Rightarrow>
          (case encrypt_body opts env url method headers body of
             Inl e \<Rightarrow> (Inl e, [])
           | Inr body' \<Rightarrow>
               (case fetch_target opts env url of
                  Inl e \<Rightarrow> (Inl e, [])
                | Inr target \<Rightarrow>
                    let init = \<lparr> init_method = (if method = FORMDATA then ''POST'' else method_str method),
                                 init_headers = headers,
                                 init_signal = req_signal req,
                                 init_body = body' \<rparr>
                    in (io_fetch opts target init, [(target, init)]))))"

text \<open>The last \<open>try\<close> block of \<open>execute\<close>: decoding by content type.\<close>

definition decode_body :: "internal_options \<Rightarrow> env \<Rightarrow> response \<Rightarrow> exn + jsval" where
  "decode_body opts env resp =
     (let contentType = (case map_of (resp_headers resp) ''content-type'' of None \<Rightarrow> [] | Some c \<Rightarrow> c)
      in case io_encryption opts of
           Some enc \<Rightarrow>
             if str_includes contentType ''application/octet-stream'' then
               (case resp_arrayBuffer resp of
                  Inl e \<Rightarrow> Inl e
                | Inr buf \<Rightarrow>
                    (case decrypt enc buf of
                       Inl e \<Rightarrow> Inl e
                     | Inr dec \<Rightarrow> decodeJson (env_jsonParse env) dec))
             else if str_includes contentType ''application/json'' then resp_json resp
             else (case resp_text resp of Inl e \<Rightarrow> Inl e | Inr t \<Rightarrow> Inr (JStr t))
         | None \<Rightarrow>
             if str_includes contentType ''application/json'' then resp_json resp
             else (case resp_text resp of Inl e \<Rightarrow> Inl e | Inr t \<Rightarrow> Inr (JStr t)))"

text \<open>
  \<open>typeof data === "object" && data && "code" in data ? data
    : {code: "ERR_HTTP", message: "Request failed", details: data}\<close>.
\<close>

definition http_error_shape :: "jsval \<Rightarrow> api_error_shape" where
  "http_error_shape data =
     (case data of
        JObj ps \<Rightarrow> if ''code'' \<in> set (map fst ps) then BodyShape ps
                   else ErrorShape ''ERR_HTTP'' ''Request failed'' data
      | _ \<Rightarrow> ErrorShape ''ERR_HTTP'' ''Request failed'' data)"

definition decode_response :: "internal_options \<Rightarrow> env \<Rightarrow> response \<Rightarrow> api_response" where
  "decode_response opts env resp =
     (case decode_body opts env resp of
        Inl e \<Rightarrow> Failure (resp_status resp) (Some (resp_headers resp))
                   (makeErrorShape (toApiError e ''ERR_DECODE''))
      | Inr data \<Rightarrow>
          if \<not> response_ok resp
          then Failure (resp_status resp) (Some (resp_headers resp)) (http_error_shape data)
          else Success (resp_status resp) (resp_headers resp) data)"

text \<open>
  What one run of \<open>execute\<close> does: how its promise ends, the token storage
  afterwards, the calls of \<open>fetch\<close> and the calls of the stream handlers.
\<close>

record exec_result =
  ex_outcome :: "api_response outcome"
  ex_tokens :: token_store
  ex_fetches :: "(string \<times> request_init) list"
  ex_events :: "stream_event list"

text \<open>
  \<open>ApiClient.execute(url, method, req)\<close>.  The call of
  \<open>this.auth.getValidAccessToken()\<close> stands before the first \<open>try\<close>: its rejection
  is the rejection of \<open>execute\<close>.
\<close>

definition execute ::
  "internal_options \<Rightarrow> env \<Rightarrow> int \<Rightarrow> string \<Rightarrow> http_method \<Rightarrow> api_request \<Rightarrow> token_store \<Rightarrow> exec_result" where
  "execute opts env now url method req tokens =
     (case getValidAccessToken (io_auth opts) (env_decodeJwt env) now tokens of
        (Inl e, tokens') \<Rightarrow>
          \<lparr> ex_outcome = Rejected e, ex_tokens = tokens', ex_fetches = [], ex_events = [] \<rparr>
      | (Inr token, tokens') \<Rightarrow>
          (case transport opts env url method
                  (with_authorization token (merged_headers opts method req)) req of
             (Inl e, calls) \<Rightarrow>
               \<lparr> ex_outcome = Resolved (Failure 0 None (makeErrorShape (toApiError e ''ERR_NETWORK''))),
                 ex_tokens = tokens', ex_fetches = calls, ex_events = [] \<rparr>
           | (Inr resp, calls) \<Rightarrow>
               if req_stream req then
                 (case streamResponse (resp_status resp) (resp_headers resp) (resp_body resp)
                         (case req_streamHandlers req of
                            None \<Rightarrow> \<lparr> onStart = None, onChunk = None, onError = None, onComplete = None \<rparr>
                          | Some h \<Rightarrow> h) of
                    (evs, Resolved u) \<Rightarrow>
                      \<lparr> ex_outcome = Resolved (Success (resp_status resp) (resp_headers resp) JUndefined),
                        ex_tokens = tokens', ex_fetches = calls, ex_events = evs \<rparr>
                  | (evs, Rejected e) \<Rightarrow>
                      \<lparr> ex_outcome = Resolved (Failure (resp_status resp) (Some (resp_headers resp))
                                                (makeErrorShape (toApiError e ''ERR_STREAM''))),
                        ex_tokens = tokens', ex_fetches = calls, ex_events = evs \<rparr>
                  | (evs, Pending) \<Rightarrow>
                      \<lparr> ex_outcome = Pending, ex_tokens = tokens', ex_fetches = calls, ex_events = evs \<rparr>)
               else
                 \<lparr> ex_outcome = Resolved (decode_response opts env resp),
                   ex_tokens = tokens', ex_fetches = calls, ex_events = [] \<rparr>))"

section \<open>client.ts: \<open>ApiClient.request\<close>\<close>

text \<open>
  The cache key: \<open>req.cacheKey ?? `${method}:${url}:${JSON.stringify(req.body ?? null)}`\<close>.
\<close>

definition cacheKeyOf :: "http_method \<Rightarrow> string \<Rightarrow> api_request \<Rightarrow> exn + string" where
  "cacheKeyOf method url req =
     (case req_cacheKey req of
        Some k \<Rightarrow> Inr k
      | None \<Rightarrow>
          (case stringify (if req_body req = JUndefined then JNull else req_body req) of
             Throws \<Rightarrow> Inl (type_error ''Do not know how to serialize a BigInt'')
           | Undef \<Rightarrow> Inr (method_str method @ '':'' @ url @ '':'' @ ''undefined'')
           | Text t \<Rightarrow> Inr (method_str method @ '':'' @ url @ '':'' @ t)))"

text \<open>
  A promise created by \<open>request\<close> (\<open>exec\<close>): \<open>execute\<close> has been called with the
  recorded arguments and has not settled; or it will never settle (a stream whose
  reader stops answering); or it is settled.
\<close>

datatype pstate =
    Running string string http_method api_request
  | Stuck
  | Settled "api_response outcome"

text \<open>
  The state one client works on: the token storage of its \<open>AuthManager\<close>, its cache
  (\<open>None\<close>: \<open>this.cache\<close> is null), the map of its \<open>InFlightDeduper\<close>, the promises
  it created (a promise is named by its index), and what it did so far: the calls
  of \<open>fetch\<close>, the calls of stream handlers, the number of calls of
  \<open>getValidAccessToken\<close>.
\<close>

record cstate =
  st_tokens :: token_store
  st_cache :: "api_response cache option"
  st_inflight :: inflight_map
  st_promises :: "pstate list"
  st_fetches :: "(string \<times> request_init) list"
  st_events :: "stream_event list"
  st_auth_calls :: nat

text \<open>
  What a call of \<open>request\<close> hands back: a promise already resolved with the cached
  response, the promise found in the in-flight map, the promise \<open>exec\<close> it created,
  or a promise rejected with what the synchronous part threw.
\<close>

datatype handle = Hit api_response | Joined nat | Started nat | Threw exn

text \<open>
  \<open>if (this.cache) { const cached = this.cache.get(cacheKey); if (cached) return cached; }\<close>:
  the cached response, if any, and the state after the lookup.
\<close>

definition cache_lookup :: "int \<Rightarrow> string \<Rightarrow> cstate \<Rightarrow> api_response option \<times> cstate" where
  "cache_lookup now cacheKey st =
     (case st_cache st of
        None \<Rightarrow> (None, st)
      | Some c \<Rightarrow> (case cache_get now cacheKey c of (r, c') \<Rightarrow> (r, st\<lparr> st_cache := Some c' \<rparr>)))"

text \<open>
  The rest of \<open>request\<close>: with deduplication the promise found in the in-flight map
  is returned; otherwise \<open>this.execute(\<dots>).then(\<dots>)\<close> is created and, with
  deduplication, registered under the key.
\<close>

definition start_or_join ::
  "internal_options \<Rightarrow> string \<Rightarrow> string \<Rightarrow> http_method \<Rightarrow> api_request \<Rightarrow> cstate \<Rightarrow> handle \<times> cstate" where
  "start_or_join opts cacheKey url method req st =
     (case (if io_enableInFlightDedup opts then inflight_get cacheKey (st_inflight st) else None) of
        Some p \<Rightarrow> (Joined p, st)
      | None \<Rightarrow>
          (Started (length (st_promises st)),
           st\<lparr> st_promises := st_promises st @ [Running cacheKey url method req],
               st_inflight :=
                 (if io_enableInFlightDedup opts
                  then inflight_set cacheKey (length (st_promises st)) (st_inflight st)
                  else st_inflight st) \<rparr>))"

text \<open>
  The body of \<open>request\<close>.  It contains no \<open>await\<close>, so it runs in one piece:
  method, URL and key; the cache; the in-flight map and the start of \<open>execute\<close>.
\<close>

definition request_call :: "internal_options \<Rightarrow> env \<Rightarrow> int \<Rightarrow> api_request \<Rightarrow> cstate \<Rightarrow> handle \<times> cstate" where
  "request_call opts env now req st =
     (let method = (case req_method req of None \<Rightarrow> GET | Some m \<Rightarrow> m)
      in case buildUrl env (io_baseUrl opts) (req_url req) (req_query req) of
           Inl e \<Rightarrow> (Threw e, st)
         | Inr url \<Rightarrow>
             (case cacheKeyOf method url req of
                Inl e \<Rightarrow> (Threw e, st)
              | Inr cacheKey \<Rightarrow>
                  (case cache_lookup now cacheKey st of
                     (Some cached, st1) \<Rightarrow> (Hit cached, st1)
                   | (None, st1) \<Rightarrow> start_or_join opts cacheKey url method req st1)))"

text \<open>
  The settlement of the promise \<open>p\<close>: the body of \<open>execute\<close> (taken as one step, at
  the time \<open>now\<close>), then the callback of \<open>then\<close>
  (\<open>if (this.cache && res.ok) this.cache.set(cacheKey, res, this.options.cacheTtlMs)\<close>),
  then the callback of \<open>finally\<close> registered by \<open>InFlightDeduper.set\<close>.  A promise
  that is not running is left alone; an \<open>execute\<close> that never returns leaves the
  promise unsettled for ever.
\<close>

definition promise_settle :: "internal_options \<Rightarrow> env \<Rightarrow> int \<Rightarrow> nat \<Rightarrow> cstate \<Rightarrow> cstate" where
  "promise_settle opts env now p st =
     (if p < length (st_promises st) then
        (case st_promises st ! p of
           Running cacheKey url method req \<Rightarrow>
             (let r = execute opts env now url method req (st_tokens st);
                  st1 = st\<lparr> st_tokens := ex_tokens r,
                            st_fetches := st_fetches st @ ex_fetches r,
                            st_events := st_events st @ ex_events r,
                            st_auth_calls := Suc (st_auth_calls st) \<rparr>
              in case ex_outcome r of
                   Pending \<Rightarrow> st1\<lparr> st_promises := (st_promises st)[p := Stuck] \<rparr>
                 | Rejected e \<Rightarrow>
                     st1\<lparr> st_promises := (st_promises st)[p := Settled (Rejected e)],
                          st_inflight := (if io_enableInFlightDedup opts
                                          then inflight_finally cacheKey (st_inflight st)
                                          else st_inflight st) \<rparr>
                 | Resolved res \<Rightarrow>
                     st1\<lparr> st_cache := (case st_cache st of
                                          None \<Rightarrow> None
                                        | Some c \<Rightarrow> if ok res
                                                    then Some (cache_set now cacheKey res (Some (io_cacheTtlMs opts)) c)
                                                    else Some c),
                          st_promises := (st_promises st)[p := Settled (Resolved res)],
                          st_inflight := (if io_enableInFlightDedup opts
                                          then inflight_finally cacheKey (st_inflight st)
                                          else st_inflight st) \<rparr>)
         | _ \<Rightarrow> st)
      else st)"

text \<open>What a caller that awaits the handle observes in a state.\<close>

definition promise_outcome :: "cstate \<Rightarrow> nat \<Rightarrow> api_response outcome" where
  "promise_outcome st p =
     (if p < length (st_promises st)
      then (case st_promises st ! p of Settled r \<Rightarrow> r | _ \<Rightarrow> Pending)
      else Pending)"

fun handle_outcome :: "cstate \<Rightarrow> handle \<Rightarrow> api_response outcome" where
  "handle_outcome st (Hit r) = Resolved r"
| "handle_outcome st (Threw e) = Rejected e"
| "handle_outcome st (Joined p) = promise_outcome st p"
| "handle_outcome st (Started p) = promise_outcome st p"

text \<open>
  \<open>await client.request(req)\<close> with nothing else going on: the call, and the
  settlement of the promise it started, if it started one.
\<close>

definition request :: "internal_options \<Rightarrow> env \<Rightarrow> int \<Rightarrow> api_request \<Rightarrow> cstate \<Rightarrow> api_response outcome \<times> cstate" where
  "request opts env now req st =
     (case request_call opts env now req st of
        (Started p, st1) \<Rightarrow>
          (let st2 = promise_settle opts env now p st1 in (promise_outcome st2 p, st2))
      | (h, st1) \<Rightarrow> (handle_outcome st1 h, st1))"

text \<open>
  Several requests at once, on the single thread of JavaScript: a run is a list of
  events, each at a time; a call of \<open>request\<close> or the settlement of a promise.
  \<open>run\<close> gives the handles of the calls, in order, and the final state.
\<close>

datatype event = Call int api_request | Settle int nat

fun step :: "internal_options \<Rightarrow> env \<Rightarrow> event \<Rightarrow> cstate \<Rightarrow> handle list \<times> cstate" where
  "step opts env (Call now req) st = (case request_call opts env now req st of (h, st') \<Rightarrow> ([h], st'))"
| "step opts env (Settle now p) st = ([], promise_settle opts env now p st)"

fun run :: "internal_options \<Rightarrow> env \<Rightarrow> event list \<Rightarrow> cstate \<Rightarrow> handle list \<times> cstate" where
  "run opts env [] st = ([], st)"
| "run opts env (e # es) st =
     (case step opts env e st of
        (hs, st') \<Rightarrow> (case run opts env es st' of (hs', st'') \<Rightarrow> (hs @ hs', st'')))"

text \<open>The state of a client right after its construction with a cache of its own.\<close>

definition init_state :: "bool \<Rightarrow> cstate" where
  "init_state caching =
     \<lparr> st_tokens = MemoryTokenStorage_new,
       st_cache = (if caching then Some LruCacheAdapter_new else None),
       st_inflight = Map.empty,
       st_promises = [],
       st_fetches = [],
       st_events = [],
       st_auth_calls = 0 \<rparr>"

section \<open>client.ts: the objects of \<open>ApiClient\<close>\<close>



text \<open>The first statement of the constructor: every option with its default.\<close>

definition internal_of :: "env \<Rightarrow> client_options \<Rightarrow> internal_options" where
  "internal_of env options =
     \<lparr> io_baseUrl = co_baseUrl options,
       io_gatewayPath = co_gatewayPath options,
       io_fetch = (case co_fetch options of None \<Rightarrow> env_fetch env | Some f \<Rightarrow> f),
       io_defaultHeaders = (case co_defaultHeaders options of None \<Rightarrow> [] | Some h \<Rightarrow> h),
       io_auth = (case co_auth options of
                    None \<Rightarrow> \<lparr> ac_storage = None, ac_onRefresh = None, ac_isTokenExpired = None \<rparr>
                  | Some a \<Rightarrow> a),
       io_encryption = co_encryption options,
       io_cache = co_cache options,
       io_cacheTtlMs = (case co_cacheTtlMs options of None \<Rightarrow> 10000 | Some t \<Rightarrow> t),
       io_enableInFlightDedup = (case co_enableInFlightDedup options of None \<Rightarrow> True | Some b \<Rightarrow> b) \<rparr>"









section \<open>Notions used to state the properties\<close>

text \<open>The record of a call \<open>h?.(x)\<close> when nothing is thrown: one event if the handler is there.\<close>

definition fired :: "('a \<Rightarrow> exn option) option \<Rightarrow> stream_event \<Rightarrow> stream_event list" where
  "fired h ev = (case h of None \<Rightarrow> [] | Some f \<Rightarrow> [ev])"

text \<open>Handlers that return whatever they are given.\<close>

definition never_throws :: "stream_handlers \<Rightarrow> bool" where
  "never_throws h =
     ((\<forall>f x. onStart h = Some f \<longrightarrow> f x = None) \<and>
      (\<forall>f x. onChunk h = Some f \<longrightarrow> f x = None) \<and>
      (\<forall>f x. onError h = Some f \<longrightarrow> f x = None) \<and>
      (\<forall>f x. onComplete h = Some f \<longrightarrow> f x = None))"

text \<open>The chunks of a sequence of reads that carry a value, in order.\<close>

fun present_values :: "bytes option list \<Rightarrow> bytes list" where
  "present_values [] = []"
| "present_values (None # vs) = present_values vs"
| "present_values (Some v # vs) = v # present_values vs"

text \<open>All four handlers, none of which throws.\<close>

definition quiet_handlers :: stream_handlers where
  "quiet_handlers = \<lparr> onStart = Some (\<lambda>x. None), onChunk = Some (\<lambda>x. None),
                       onError = Some (\<lambda>x. None), onComplete = Some (\<lambda>x. None) \<rparr>"

text \<open>The calls of handlers among the recorded events.\<close>

definition handler_calls :: "stream_event list \<Rightarrow> stream_event list" where
  "handler_calls evs = filter (\<lambda>e. e \<noteq> EvReleaseLock) evs"

text \<open>
  The handler calls as the specification words them for a graceful stream:
  \<open>onStart\<close>, then \<open>onChunk\<close> for each non-empty chunk, then \<open>onComplete\<close>.
\<close>

definition spec_stream_events :: "nat \<Rightarrow> resp_headers \<Rightarrow> bytes option list \<Rightarrow> stream_event list" where
  "spec_stream_events status hdrs vs =
     EvStart status hdrs # map EvChunk (filter (\<lambda>v. v \<noteq> []) (present_values vs)) @ [EvComplete]"



text \<open>A request with a path, a method and a body, and nothing else.\<close>

definition simple_request :: "string \<Rightarrow> http_method \<Rightarrow> jsval \<Rightarrow> api_request" where
  "simple_request url method body =
     \<lparr> req_url = url, req_method = Some method, req_headers = None, req_query = None,
       req_body = body, req_signal = None, req_cacheKey = None, req_stream = False,
       req_streamHandlers = None \<rparr>"

text \<open>The method, the resolved URL and the cache key that \<open>request\<close> computes for a request.\<close>

definition method_of :: "api_request \<Rightarrow> http_method" where
  "method_of req = (case req_method req of None \<Rightarrow> GET | Some m \<Rightarrow> m)"

definition url_of :: "internal_options \<Rightarrow> env \<Rightarrow> api_request \<Rightarrow> exn + string" where
  "url_of opts env req = buildUrl env (io_baseUrl opts) (req_url req) (req_query req)"

definition key_of :: "internal_options \<Rightarrow> env \<Rightarrow> api_request \<Rightarrow> exn + string" where
  "key_of opts env req =
     (case url_of opts env req of Inl e \<Rightarrow> Inl e | Inr url \<Rightarrow> cacheKeyOf (method_of req) url req)"

text \<open>
  A small platform on which the definitions can be run: a URL is resolved only
  against a base that starts with \<open>http://\<close>, by appending the path; the only token
  that decodes is \<open>expired\<close>, with \<open>exp = 1\<close>; \<open>fetch\<close> answers \<open>200\<close> with a plain
  text; the cipher adds one to every byte.
\<close>

definition demo_response :: response where
  "demo_response =
     \<lparr> resp_status = 200, resp_headers = [(''content-type'', ''text/plain'')], resp_body = None,
       resp_arrayBuffer = Inr [], resp_json = Inr JNull, resp_text = Inr ''ok'' \<rparr>"

definition demo_encryption :: encryption_adapter where
  "demo_encryption =
     \<lparr> encrypt = (\<lambda>bs. Inr (map (\<lambda>b. b + 1) bs)), decrypt = (\<lambda>bs. Inr (map (\<lambda>b. b - 1) bs)) \<rparr>"

definition demo_env :: env where
  "demo_env =
     \<lparr> env_newURL = (\<lambda>path base. if take 7 base = ''http://'' then Inr (base @ path)
                                  else Inl (type_error ''Invalid URL'')),
       env_searchParamsSet = (\<lambda>k v u. u @ ''?'' @ k @ ''='' @ v),
       env_origin = None,
       env_decodeJwt = (\<lambda>t. if t = ''expired'' then Inr \<lparr> jwt_exp = Some 1 \<rparr>
                              else Inl (type_error ''Invalid JWT'')),
       env_jsonParse = (\<lambda>s. Inl (type_error ''Unexpected token'')),
       env_nanoid = (\<lambda>n. replicate n (CHR ''x'')),
       env_fetch = (\<lambda>url init. Inr demo_response),
       env_aesGcm = (\<lambda>secret. demo_encryption) \<rparr>"

text \<open>\<open>new ApiClient()\<close>: no option given.\<close>

definition no_options :: client_options where
  "no_options =
     \<lparr> co_baseUrl = None, co_gatewayPath = None, co_fetch = None, co_defaultHeaders = None,
       co_auth = None, co_encryption = None, co_cache = None, co_cacheTtlMs = None,
       co_enableInFlightDedup = None \<rparr>"

definition demo_options :: internal_options where
  "demo_options = internal_of demo_env no_options"

text \<open>A stored pair whose access token is expired from the second second on, with a refresh token.\<close>

definition expired_tokens :: token_store where
  "expired_tokens =
     \<lparr> ts_accessToken = Some ''expired'', ts_refreshToken = Some ''refresh'',
       ts_payload = Some \<lparr> jwt_exp = Some 1 \<rparr>, ts_accessTokenExpiresAt = Some 1000 \<rparr>"

text \<open>A refresh callback whose promise rejects.\<close>

definition failing_refresh :: auth_config where
  "failing_refresh =
     \<lparr> ac_storage = None, ac_onRefresh = Some (\<lambda>current. Inl (type_error ''refresh failed'')),
       ac_isTokenExpired = None \<rparr>"

text \<open>
  The stored access token is there and expired for the predicate in force; and no
  refresh is possible: no callback, or no refresh token.
\<close>

definition token_expired :: "auth_config \<Rightarrow> (string \<Rightarrow> exn + jwt_payload) \<Rightarrow> int \<Rightarrow> token_store \<Rightarrow> bool" where
  "token_expired cfg decodeJwt now st =
     (truthy (ts_accessToken st) \<and>
      (case ac_isTokenExpired cfg of None \<Rightarrow> defaultIsTokenExpired now | Some f \<Rightarrow> f)
        (enrichMetadata decodeJwt (ts_accessToken st)))"

definition cannot_refresh :: "auth_config \<Rightarrow> token_store \<Rightarrow> bool" where
  "cannot_refresh cfg st = (if ac_onRefresh cfg = None then True else \<not> truthy (ts_refreshToken st))"

text \<open>The property names of a headers object.\<close>

definition header_names :: "headers_obj \<Rightarrow> string set" where
  "header_names hs = set (map fst hs)"

text \<open>A client that holds the expired pair.\<close>

definition expired_state :: cstate where
  "expired_state = (init_state True)\<lparr> st_tokens := expired_tokens \<rparr>"

text \<open>Clients with a gateway path, without and with the cipher; a token that is in force; a request with a header of its own.\<close>

definition gateway_options :: internal_options where
  "gateway_options = demo_options\<lparr> io_gatewayPath := Some ''/gateway'' \<rparr>"

definition secure_gateway_options :: internal_options where
  "secure_gateway_options = gateway_options\<lparr> io_encryption := Some demo_encryption \<rparr>"

definition valid_tokens :: token_store where
  "valid_tokens = \<lparr> ts_accessToken = Some ''tok'', ts_refreshToken = None,
                     ts_payload = None, ts_accessTokenExpiresAt = None \<rparr>"

text \<open>Of a call of \<open>fetch\<close>: the URL, \<open>init.method\<close> and \<open>init.headers\<close>.\<close>

definition call_in_clear :: "string \<times> request_init \<Rightarrow> string \<times> string \<times> headers_obj" where
  "call_in_clear c = (fst c, init_method (snd c), init_headers (snd c))"

definition secret_request :: api_request where
  "secret_request =
     (simple_request ''/users/me'' POST (JObj [(''pin'', JNum 1234)]))
        \<lparr> req_headers := Some [(''x-secret'', ''s3cr3t'')] \<rparr>"

text \<open>Every response held by the cache of a client is a success.\<close>

definition cache_all_ok :: "cstate \<Rightarrow> bool" where
  "cache_all_ok st =
     (case st_cache st of None \<Rightarrow> True | Some c \<Rightarrow> list_all (\<lambda>p. ok (ce_value (snd p))) (lru_items c))"

text \<open>A cache that holds two responses written at time 0 with the default TTL, and a client with it.\<close>

definition demo_cache :: "api_response cache" where
  "demo_cache =
     cache_set 0 ''GET:http://localhost/users/me:null'' (Success 200 [] (JStr ''u1'')) (Some 10000)
       (cache_set 0 ''GET:http://localhost/other:null'' (Success 200 [] (JStr ''o'')) (Some 10000)
          LruCacheAdapter_new)"

definition cached_state :: cstate where
  "cached_state = (init_state True)\<lparr> st_cache := Some demo_cache \<rparr>"







text \<open>
  The key under which a promise runs, while \<open>execute\<close> has not settled.
\<close>

fun promise_key :: "pstate \<Rightarrow> string option" where
  "promise_key (Running k u m r) = Some k"
| "promise_key Stuck = None"
| "promise_key (Settled r) = None"

definition running_key :: "cstate \<Rightarrow> nat \<Rightarrow> string option" where
  "running_key st p = (if p < length (st_promises st) then promise_key (st_promises st ! p) else None)"




text \<open>
  The state of a promise after its \<open>execute\<close> ended in the given way.
\<close>

fun settled_as :: "api_response outcome \<Rightarrow> pstate" where
  "settled_as Pending = Stuck"
| "settled_as (Resolved res) = Settled (Resolved res)"
| "settled_as (Rejected e) = Settled (Rejected e)"




section \<open>Verified properties\<close>

subsection \<open>The stream relay\<close>

lemma call_opt_quiet: "(\<forall>f x. h = Some f \<longrightarrow> f x = None) \<Longrightarrow> call_opt h x ev = (fired h ev, None)"
  by (cases h) (simp_all add: call_opt_def fired_def)

lemma read_loop_graceful:
  assumes "\<forall>f x. onChunk h = Some f \<longrightarrow> f x = None"
  shows "read_loop h (map ReadValue vs @ ReadDone # rest) =
           (concat (map (\<lambda>v. fired (onChunk h) (EvChunk v)) (present_values vs)), Resolved ())"
proof (induction vs rule: present_values.induct)
  case 1
  show ?case by simp
next
  case (2 vs)
  then show ?case by simp
next
  case (3 v vs)
  then show ?case using assms by (simp add: call_opt_quiet)
qed

lemma never_throws_quiet: "never_throws quiet_handlers"
  by (simp add: never_throws_def quiet_handlers_def)

lemma fired_quiet:
  "fired (onStart quiet_handlers) ev = [ev]"
  "fired (onChunk quiet_handlers) ev = [ev]"
  "fired (onComplete quiet_handlers) ev = [ev]"
  by (simp_all add: fired_def quiet_handlers_def)

text \<open>
  Claim C8, as the code has it.  With handlers that do not throw, on a body whose
  reads give the values \<open>vs\<close> and then \<open>done\<close>: \<open>onStart\<close> is called once, first;
  then \<open>onChunk\<close> once for every read that carries a value, in the order of
  arrival, a zero-length array included (only an undefined value is skipped); then
  \<open>onComplete\<close> once; then the reader is released and the promise resolves.  On a
  response without a body \<open>onStart\<close> and \<open>onComplete\<close> are called and no
  \<open>onChunk\<close>.  A handler that is absent is not called.
\<close>

theorem streamResponse_graceful:
  assumes "never_throws h"
  shows "streamResponse status hdrs (Some (map ReadValue vs @ ReadDone # rest)) h =
           (fired (onStart h) (EvStart status hdrs)
              @ concat (map (\<lambda>v. fired (onChunk h) (EvChunk v)) (present_values vs))
              @ fired (onComplete h) EvComplete @ [EvReleaseLock], Resolved ())
         \<and> streamResponse status hdrs None h =
           (fired (onStart h) (EvStart status hdrs) @ fired (onComplete h) EvComplete, Resolved ())"
proof -
  from assms have s: "\<forall>f x. onStart h = Some f \<longrightarrow> f x = None"
    and c: "\<forall>f x. onChunk h = Some f \<longrightarrow> f x = None"
    and k: "\<forall>f x. onComplete h = Some f \<longrightarrow> f x = None"
    by (simp_all add: never_throws_def)
  show ?thesis
    by (simp add: streamResponse_def consume_def call_opt_quiet[OF s] call_opt_quiet[OF k]
        read_loop_graceful[OF c])
qed

theorem streamResponse_graceful_witness:
  "never_throws quiet_handlers \<and>
   streamResponse 200 []
       (Some [ReadValue (Some [1, 2]), ReadValue None, ReadValue (Some [3]), ReadDone]) quiet_handlers =
     ([EvStart 200 [], EvChunk [1, 2], EvChunk [3], EvComplete, EvReleaseLock], Resolved ())
   \<and> streamResponse 200 [] None quiet_handlers = ([EvStart 200 [], EvComplete], Resolved ())"
  using streamResponse_graceful[OF never_throws_quiet, of 200 "[]" "[Some [1, 2], None, Some [3]]" "[]"]
  by (simp add: never_throws_quiet fired_quiet)

text \<open>
  Claim C8 as worded fails on a chunk of length zero: the body gives one empty
  \<open>Uint8Array\<close> and ends; \<open>onChunk\<close> is called with it, where the wording
  (one call per non-empty chunk) has no call.
\<close>

theorem streamResponse_empty_chunk_counterexample:
  "handler_calls (fst (streamResponse 200 [] (Some [ReadValue (Some []), ReadDone]) quiet_handlers))
     = [EvStart 200 [], EvChunk [], EvComplete]
   \<and> spec_stream_events 200 [] [Some []] = [EvStart 200 [], EvComplete]
   \<and> handler_calls (fst (streamResponse 200 [] (Some [ReadValue (Some []), ReadDone]) quiet_handlers))
     \<noteq> spec_stream_events 200 [] [Some []]"
  by (simp add: streamResponse_def consume_def call_opt_def quiet_handlers_def spec_stream_events_def
      handler_calls_def)

subsection \<open>The cache key\<close>






subsection \<open>A call that starts \<open>execute\<close>\<close>

lemma request_call_Started:
  assumes "request_call opts env now req st = (Started p, st1)"
  shows "\<exists>url key. url_of opts env req = Inr url \<and> key_of opts env req = Inr key
           \<and> p = length (st_promises st)
           \<and> st_promises st1 = st_promises st @ [Running key url (method_of req) req]
           \<and> st_tokens st1 = st_tokens st \<and> st_fetches st1 = st_fetches st
           \<and> st_events st1 = st_events st \<and> st_auth_calls st1 = st_auth_calls st
           \<and> (io_enableInFlightDedup opts \<longrightarrow> st_inflight st1 = (st_inflight st)(key \<mapsto> p))
           \<and> (\<not> io_enableInFlightDedup opts \<longrightarrow> st_inflight st1 = st_inflight st)
           \<and> (st_cache st = None \<longrightarrow> st_cache st1 = None)
           \<and> (\<forall>c. st_cache st = Some c \<longrightarrow> st_cache st1 = Some (snd (cache_get now key c)))"
  using assms
  by (auto simp: request_call_def cache_lookup_def start_or_join_def url_of_def key_of_def
        method_of_def Let_def inflight_set_def
      split: sum.splits option.splits prod.splits if_splits)

lemma request_Started:
  assumes "request_call opts env now req st = (Started p, st1)"
    and "url_of opts env req = Inr url"
  shows "fst (request opts env now req st) =
           ex_outcome (execute opts env now url (method_of req) req (st_tokens st))
       \<and> st_fetches (snd (request opts env now req st)) =
           st_fetches st @ ex_fetches (execute opts env now url (method_of req) req (st_tokens st))
       \<and> st_events (snd (request opts env now req st)) =
           st_events st @ ex_events (execute opts env now url (method_of req) req (st_tokens st))
       \<and> st_tokens (snd (request opts env now req st)) =
           ex_tokens (execute opts env now url (method_of req) req (st_tokens st))
       \<and> st_auth_calls (snd (request opts env now req st)) = Suc (st_auth_calls st)"
proof -
  from request_call_Started[OF assms(1)] assms(2)
  obtain key where
    p: "p = length (st_promises st)"
    and ps: "st_promises st1 = st_promises st @ [Running key url (method_of req) req]"
    and tk: "st_tokens st1 = st_tokens st" and fe: "st_fetches st1 = st_fetches st"
    and ev: "st_events st1 = st_events st" and au: "st_auth_calls st1 = st_auth_calls st"
    by auto
  show ?thesis
    using assms(1)
    by (simp add: request_def promise_settle_def promise_outcome_def p ps tk fe ev au Let_def
        split: outcome.splits)
qed

subsection \<open>An expired token that cannot be refreshed\<close>

lemma set_obj_set: "fst ` set (obj_set k v ps) = insert k (fst ` set ps)"
proof (induction ps)
  case Nil
  show ?case by simp
next
  case (Cons a ps)
  obtain k' v' where a: "a = (k', v')" by (cases a)
  show ?case
  proof (cases "k = k'")
    case True
    then show ?thesis by (simp add: a)
  next
    case False
    then show ?thesis using Cons.IH by (simp add: a insert_commute)
  qed
qed

lemma fold_obj_set_keys:
  "fst ` set (fold (\<lambda>p acc. obj_set (fst p) (snd p) acc) b a) = fst ` set a \<union> fst ` set b"
  by (induction b arbitrary: a) (simp_all add: set_obj_set)

lemma header_names_merge: "header_names (obj_merge a b) = header_names a \<union> header_names b"
  by (simp add: obj_merge_def header_names_def fold_obj_set_keys)

lemma header_names_default:
  "header_names (defaultHeadersFor m enc) \<subseteq> {''content-type'', ''accept''}"
  by (auto simp: defaultHeadersFor_def header_names_def)

lemma authorization_not_merged:
  assumes "''authorization'' \<notin> header_names (io_defaultHeaders opts)"
    and "''authorization'' \<notin> header_names (case req_headers req of None \<Rightarrow> [] | Some h \<Rightarrow> h)"
  shows "''authorization'' \<notin> header_names (merged_headers opts m req)"
  using assms header_names_default[of m "io_encryption opts"]
  by (auto simp: merged_headers_def header_names_merge)

lemma transport_calls:
  "snd (transport opts env url m hs req) = [] \<and> (\<exists>e. fst (transport opts env url m hs req) = Inl e)
   \<or> (\<exists>target init. snd (transport opts env url m hs req) = [(target, init)]
         \<and> fetch_target opts env url = Inr target \<and> init_headers init = hs
         \<and> fst (transport opts env url m hs req) = io_fetch opts target init)"
  by (auto simp: transport_def Let_def split: sum.splits)

lemma getValidAccessToken_expired_no_refresh:
  assumes "token_expired cfg decodeJwt now st" and "cannot_refresh cfg st"
  shows "getValidAccessToken cfg decodeJwt now st = (Inr None, st)"
  using assms
  by (auto simp: getValidAccessToken_def token_expired_def cannot_refresh_def Let_def
      split: option.splits if_splits)

lemma execute_without_token:
  assumes "getValidAccessToken (io_auth opts) (env_decodeJwt env) now tokens = (Inr None, tokens)"
  shows "ex_fetches (execute opts env now url m req tokens) =
           snd (transport opts env url m (merged_headers opts m req) req)
       \<and> ex_tokens (execute opts env now url m req tokens) = tokens
       \<and> (\<forall>e. ex_outcome (execute opts env now url m req tokens) \<noteq> Rejected e)"
  using assms
  by (auto simp: execute_def with_authorization_def split: prod.splits sum.splits outcome.splits)

text \<open>
  Claim C7.  When the stored access token is expired for the predicate in force
  and there is no refresh callback or no refresh token, \<open>getValidAccessToken\<close>
  returns null and leaves the storage alone; a \<open>request\<close> that reaches \<open>execute\<close>
  does not reject; what it hands to \<open>fetch\<close> is what the transport step does with
  the merged headers (defaults, client headers, request headers) to which no
  \<open>authorization\<close> was added: either preparing the call threw (caught, a Failure
  result) or \<open>fetch\<close> is called once with exactly those headers, and these hold an
  \<open>authorization\<close> entry only if the caller put one in the client or request headers.
\<close>

theorem expired_token_unauthenticated:
  assumes "token_expired (io_auth opts) (env_decodeJwt env) now (st_tokens st)"
    and "cannot_refresh (io_auth opts) (st_tokens st)"
    and "request_call opts env now req st = (Started p, st1)"
    and "url_of opts env req = Inr url"
  shows "getValidAccessToken (io_auth opts) (env_decodeJwt env) now (st_tokens st) = (Inr None, st_tokens st)
       \<and> (\<forall>e. fst (request opts env now req st) \<noteq> Rejected e)
       \<and> st_fetches (snd (request opts env now req st)) =
           st_fetches st @ snd (transport opts env url (method_of req) (merged_headers opts (method_of req) req) req)
       \<and> (snd (transport opts env url (method_of req) (merged_headers opts (method_of req) req) req) = []
            \<and> (\<exists>e. fst (transport opts env url (method_of req) (merged_headers opts (method_of req) req) req) = Inl e)
          \<or> (\<exists>target init.
                snd (transport opts env url (method_of req) (merged_headers opts (method_of req) req) req) = [(target, init)]
                \<and> init_headers init = merged_headers opts (method_of req) req))
       \<and> (''authorization'' \<in> header_names (merged_headers opts (method_of req) req)
            \<longrightarrow> ''authorization'' \<in> header_names (io_defaultHeaders opts)
                \<or> ''authorization'' \<in> header_names (case req_headers req of None \<Rightarrow> [] | Some h \<Rightarrow> h))"
proof -
  let ?m = "method_of req"
  have g: "getValidAccessToken (io_auth opts) (env_decodeJwt env) now (st_tokens st) = (Inr None, st_tokens st)"
    by (rule getValidAccessToken_expired_no_refresh[OF assms(1) assms(2)])
  note e = execute_without_token[OF g, of url ?m req]
  note r = request_Started[OF assms(3) assms(4)]
  have a: "\<forall>e. fst (request opts env now req st) \<noteq> Rejected e"
    using e r by simp
  have b: "st_fetches (snd (request opts env now req st)) =
           st_fetches st @ snd (transport opts env url ?m (merged_headers opts ?m req) req)"
    using e r by simp
  have c: "snd (transport opts env url ?m (merged_headers opts ?m req) req) = []
            \<and> (\<exists>e. fst (transport opts env url ?m (merged_headers opts ?m req) req) = Inl e)
          \<or> (\<exists>target init.
                snd (transport opts env url ?m (merged_headers opts ?m req) req) = [(target, init)]
                \<and> init_headers init = merged_headers opts ?m req)"
    using transport_calls[of opts env url ?m "merged_headers opts ?m req" req] by blast
  have d: "''authorization'' \<in> header_names (merged_headers opts ?m req)
            \<longrightarrow> ''authorization'' \<in> header_names (io_defaultHeaders opts)
                \<or> ''authorization'' \<in> header_names (case req_headers req of None \<Rightarrow> [] | Some h \<Rightarrow> h)"
    using authorization_not_merged[of opts req ?m] by blast
  show ?thesis using g a b c d by blast
qed

theorem expired_token_unauthenticated_witness:
  "token_expired (io_auth demo_options) (env_decodeJwt demo_env) 5000 (st_tokens expired_state)
   \<and> cannot_refresh (io_auth demo_options) (st_tokens expired_state)
   \<and> fst (request_call demo_options demo_env 5000 (simple_request ''/users/me'' GET JUndefined) expired_state)
       = Started 0
   \<and> url_of demo_options demo_env (simple_request ''/users/me'' GET JUndefined) = Inr ''http://localhost/users/me''
   \<and> getValidAccessToken (io_auth demo_options) (env_decodeJwt demo_env) 5000 (st_tokens expired_state)
       = (Inr None, st_tokens expired_state)
   \<and> st_fetches (snd (request demo_options demo_env 5000 (simple_request ''/users/me'' GET JUndefined) expired_state))
       = [(''http://localhost/users/me'',
           \<lparr> init_method = ''GET'',
             init_headers = [(''accept'', ''application/json, application/octet-stream;q=0.8, */*;q=0.5'')],
             init_signal = None, init_body = None \<rparr>)]"
proof -
  have w1: "token_expired (io_auth demo_options) (env_decodeJwt demo_env) 5000 (st_tokens expired_state)"
    by code_simp
  have w2: "cannot_refresh (io_auth demo_options) (st_tokens expired_state)"
    by code_simp
  have w3: "fst (request_call demo_options demo_env 5000 (simple_request ''/users/me'' GET JUndefined) expired_state)
              = Started 0"
    by code_simp
  then have h3: "request_call demo_options demo_env 5000 (simple_request ''/users/me'' GET JUndefined) expired_state
      = (Started 0, snd (request_call demo_options demo_env 5000 (simple_request ''/users/me'' GET JUndefined) expired_state))"
    by (metis prod.collapse)
  have w4: "url_of demo_options demo_env (simple_request ''/users/me'' GET JUndefined) = Inr ''http://localhost/users/me''"
    by code_simp
  have w5: "st_fetches (snd (request demo_options demo_env 5000 (simple_request ''/users/me'' GET JUndefined) expired_state))
       = [(''http://localhost/users/me'',
           \<lparr> init_method = ''GET'',
             init_headers = [(''accept'', ''application/json, application/octet-stream;q=0.8, */*;q=0.5'')],
             init_signal = None, init_body = None \<rparr>)]"
    by code_simp
  from expired_token_unauthenticated[OF w1 w2 h3 w4]
  have g: "getValidAccessToken (io_auth demo_options) (env_decodeJwt demo_env) 5000 (st_tokens expired_state)
       = (Inr None, st_tokens expired_state)"
    by (rule conjunct1)
  show ?thesis by (intro conjI w1 w2 w3 w4 w5 g)
qed

subsection \<open>What leaves \<open>request\<close> as a rejection\<close>

text \<open>
  Inside \<open>execute\<close> everything after the token is caught: a rejection of \<open>execute\<close>
  is a rejection of \<open>getValidAccessToken\<close>.
\<close>

lemma execute_rejects_only_auth:
  assumes "ex_outcome (execute opts env now url m req tokens) = Rejected e"
  shows "fst (getValidAccessToken (io_auth opts) (env_decodeJwt env) now tokens) = Inl e"
  using assms
  by (auto simp: execute_def split: prod.splits sum.splits outcome.splits if_splits)

text \<open>
  Claim C1, at three inputs.  The refresh callback rejects while the stored token
  is expired; the body holds a BigInt and there is no explicit cache key; the base
  URL of the client is the relative \<open>/api\<close>, against which no URL resolves.  Each
  time the promise of \<open>request\<close> is rejected: the three places stand outside every
  \<open>try\<close> of the client.
\<close>

theorem request_rejects:
  "fst (request (demo_options\<lparr> io_auth := failing_refresh \<rparr>) demo_env 5000
          (simple_request ''/users/me'' GET JUndefined) expired_state)
     = Rejected (type_error ''refresh failed'')
   \<and> fst (request demo_options demo_env 5000 (simple_request ''/a'' POST (JBigInt 1)) (init_state True))
     = Rejected (type_error ''Do not know how to serialize a BigInt'')
   \<and> fst (request (demo_options\<lparr> io_baseUrl := Some ''/api'' \<rparr>) demo_env 5000
          (simple_request ''/users/me'' GET JUndefined) (init_state True))
     = Rejected (type_error ''Invalid URL'')"
  by code_simp

subsection \<open>Gateway mode\<close>







text \<open>
  Claim C3, at an input.  A client with a cipher and a gateway path sends a POST
  that carries a header \<open>x-secret\<close>, while a token is in force.  \<open>fetch\<close> is called
  once, with the gateway URL; its \<open>init.headers\<close> are the request headers in the
  clear, \<open>x-secret\<close> and the bearer token among them (and \<open>init.method\<close> is the
  true method).  Only the body is the encrypted envelope.
\<close>

theorem gateway_headers_in_clear:
  "map call_in_clear
       (ex_fetches (execute secure_gateway_options demo_env 0 ''http://localhost/users/me'' POST
                      secret_request valid_tokens))
   = [(''http://localhost/gateway'', ''POST'',
       [(''content-type'', ''application/octet-stream''),
        (''accept'', ''application/json, application/octet-stream;q=0.8, */*;q=0.5''),
        (''x-secret'', ''s3cr3t''),
        (''authorization'', ''Bearer tok'')])]"
  by code_simp

subsection \<open>The cache\<close>

lemma request_call_keyed:
  assumes "url_of opts env req = Inr url" and "key_of opts env req = Inr key"
  shows "request_call opts env now req st =
           (case cache_lookup now key st of
              (Some cached, st1) \<Rightarrow> (Hit cached, st1)
            | (None, st1) \<Rightarrow> start_or_join opts key url (method_of req) req st1)"
  using assms unfolding request_call_def Let_def method_of_def[symmetric] url_of_def[symmetric]
  by (simp add: key_of_def)

lemma request_call_unkeyed:
  assumes "key_of opts env req = Inl e"
  shows "request_call opts env now req st = (Threw e, st)"
  using assms by (auto simp: request_call_def url_of_def key_of_def method_of_def split: sum.splits)

lemma key_of_url: "key_of opts env req = Inr key \<Longrightarrow> \<exists>url. url_of opts env req = Inr url"
  by (auto simp: key_of_def split: sum.splits)

lemma start_or_join_frame:
  "st_cache (snd (start_or_join opts key url m req st)) = st_cache st
   \<and> st_tokens (snd (start_or_join opts key url m req st)) = st_tokens st
   \<and> st_fetches (snd (start_or_join opts key url m req st)) = st_fetches st
   \<and> st_events (snd (start_or_join opts key url m req st)) = st_events st
   \<and> st_auth_calls (snd (start_or_join opts key url m req st)) = st_auth_calls st
   \<and> (\<forall>r. fst (start_or_join opts key url m req st) \<noteq> Hit r)
   \<and> (\<forall>e. fst (start_or_join opts key url m req st) \<noteq> Threw e)"
  by (simp add: start_or_join_def split: option.splits)

lemma map_of_move_front:
  "map_of xs k = Some e \<Longrightarrow> map_of ((k, e) # filter (\<lambda>p. fst p \<noteq> k) xs) = map_of xs"
proof
  fix x
  assume h: "map_of xs k = Some e"
  have "map_of (filter (\<lambda>p. fst p \<noteq> k) xs) x = (if x = k then None else map_of xs x)"
    by (induction xs) auto
  with h show "map_of ((k, e) # filter (\<lambda>p. fst p \<noteq> k) xs) x = map_of xs x" by simp
qed

lemma cache_get_hit:
  assumes "map_of (lru_items c) key = Some entry" and "\<not> entry_expired now entry"
  shows "cache_get now key c =
           (Some (ce_value entry), c\<lparr> lru_items := (key, entry) # filter (\<lambda>p. fst p \<noteq> key) (lru_items c) \<rparr>)"
  using assms by (simp add: cache_get_def lru_get_def)

text \<open>
  Claim C4.  When the client has a cache and the cache holds, under the key of the
  request, an entry that is not expired, \<open>request\<close> resolves with the cached
  response.  Nothing is fetched, \<open>getValidAccessToken\<close> is not called, and token
  storage, in-flight map, promises and stream events are as before.  The cache
  holds the same entries under the same keys; the lookup makes the entry the most
  recently used one, which is all that changes.
\<close>

theorem cache_hit_returns:
  assumes "st_cache st = Some c" and "key_of opts env req = Inr key"
    and "map_of (lru_items c) key = Some entry" and "\<not> entry_expired now entry"
  shows "request opts env now req st =
           (Resolved (ce_value entry),
            st\<lparr> st_cache := Some (c\<lparr> lru_items := (key, entry) # filter (\<lambda>p. fst p \<noteq> key) (lru_items c) \<rparr>) \<rparr>)
       \<and> map_of ((key, entry) # filter (\<lambda>p. fst p \<noteq> key) (lru_items c)) = map_of (lru_items c)
       \<and> st_fetches (snd (request opts env now req st)) = st_fetches st
       \<and> st_auth_calls (snd (request opts env now req st)) = st_auth_calls st
       \<and> st_tokens (snd (request opts env now req st)) = st_tokens st
       \<and> st_inflight (snd (request opts env now req st)) = st_inflight st
       \<and> st_promises (snd (request opts env now req st)) = st_promises st
       \<and> st_events (snd (request opts env now req st)) = st_events st"
proof -
  from key_of_url[OF assms(2)] obtain url where u: "url_of opts env req = Inr url" by blast
  have r: "request opts env now req st =
           (Resolved (ce_value entry),
            st\<lparr> st_cache := Some (c\<lparr> lru_items := (key, entry) # filter (\<lambda>p. fst p \<noteq> key) (lru_items c) \<rparr>) \<rparr>)"
    by (simp add: request_def request_call_keyed[OF u assms(2)] cache_lookup_def assms(1)
        cache_get_hit[OF assms(3) assms(4)])
  show ?thesis
    unfolding r using map_of_move_front[OF assms(3)] by simp
qed

theorem cache_hit_returns_witness:
  "st_cache cached_state = Some demo_cache
   \<and> key_of demo_options demo_env (simple_request ''/users/me'' GET JUndefined)
       = Inr ''GET:http://localhost/users/me:null''
   \<and> map_of (lru_items demo_cache) ''GET:http://localhost/users/me:null''
       = Some \<lparr> ce_value = Success 200 [] (JStr ''u1''), ce_expiresAt = Some 10000 \<rparr>
   \<and> \<not> entry_expired 5000 \<lparr> ce_value = Success 200 [] (JStr ''u1''), ce_expiresAt = Some 10000 \<rparr>
   \<and> fst (request demo_options demo_env 5000 (simple_request ''/users/me'' GET JUndefined) cached_state)
       = Resolved (Success 200 [] (JStr ''u1''))
   \<and> st_fetches (snd (request demo_options demo_env 5000 (simple_request ''/users/me'' GET JUndefined) cached_state))
       = st_fetches cached_state
   \<and> st_auth_calls (snd (request demo_options demo_env 5000 (simple_request ''/users/me'' GET JUndefined) cached_state))
       = st_auth_calls cached_state"
proof -
  have h1: "st_cache cached_state = Some demo_cache"
    by (simp add: cached_state_def)
  have h2: "key_of demo_options demo_env (simple_request ''/users/me'' GET JUndefined)
       = Inr ''GET:http://localhost/users/me:null''"
    by code_simp
  have h3: "map_of (lru_items demo_cache) ''GET:http://localhost/users/me:null''
       = Some \<lparr> ce_value = Success 200 [] (JStr ''u1''), ce_expiresAt = Some 10000 \<rparr>"
    by code_simp
  have h4: "\<not> entry_expired 5000 \<lparr> ce_value = Success 200 [] (JStr ''u1''), ce_expiresAt = Some 10000 \<rparr>"
    by code_simp
  note c = cache_hit_returns[OF h1 h2 h3 h4]
  from c have a: "fst (request demo_options demo_env 5000 (simple_request ''/users/me'' GET JUndefined) cached_state)
       = Resolved (Success 200 [] (JStr ''u1''))"
    by simp
  from c have b: "st_fetches (snd (request demo_options demo_env 5000 (simple_request ''/users/me'' GET JUndefined) cached_state))
       = st_fetches cached_state"
    by blast
  from c have d: "st_auth_calls (snd (request demo_options demo_env 5000 (simple_request ''/users/me'' GET JUndefined) cached_state))
       = st_auth_calls cached_state"
    by blast
  show ?thesis by (intro conjI h1 h2 h3 h4 a b d)
qed

lemma list_all_filter: "list_all P xs \<Longrightarrow> list_all P (filter Q xs)"
  by (induction xs) auto

lemma list_all_take: "list_all P xs \<Longrightarrow> list_all P (take n xs)"
  by (induction xs arbitrary: n) (auto simp: take_Cons split: nat.splits)

lemma list_all_map_of: "list_all P xs \<Longrightarrow> map_of xs k = Some v \<Longrightarrow> P (k, v)"
  by (induction xs) (auto split: if_splits)

lemma cache_get_ok:
  assumes "list_all (\<lambda>p. ok (ce_value (snd p))) (lru_items c)"
  shows "list_all (\<lambda>p. ok (ce_value (snd p))) (lru_items (snd (cache_get now key c)))
       \<and> (\<forall>v. fst (cache_get now key c) = Some v \<longrightarrow> ok v)"
  using assms list_all_map_of[OF assms, of key]
  by (auto simp: cache_get_def lru_get_def lru_delete_def list_all_filter split: option.splits)

lemma cache_set_ok:
  assumes "list_all (\<lambda>p. ok (ce_value (snd p))) (lru_items c)" and "ok v"
  shows "list_all (\<lambda>p. ok (ce_value (snd p))) (lru_items (cache_set now key v ttl c))"
  using assms by (cases "lru_max c") (auto simp: cache_set_def lru_set_def list_all_filter list_all_take)

lemma cache_lookup_ok:
  assumes "cache_all_ok st"
  shows "cache_all_ok (snd (cache_lookup now key st))
       \<and> (\<forall>r. fst (cache_lookup now key st) = Some r \<longrightarrow> ok r)"
proof (cases "st_cache st")
  case None
  then show ?thesis by (simp add: cache_lookup_def cache_all_ok_def)
next
  case (Some c)
  with assms have a: "list_all (\<lambda>p. ok (ce_value (snd p))) (lru_items c)"
    by (simp add: cache_all_ok_def)
  from cache_get_ok[OF a, of now key] show ?thesis
    by (auto simp: cache_lookup_def Some cache_all_ok_def split: prod.splits)
qed

lemma request_call_ok:
  assumes "cache_all_ok st"
  shows "cache_all_ok (snd (request_call opts env now req st))
       \<and> (\<forall>r. fst (request_call opts env now req st) = Hit r \<longrightarrow> ok r)"
proof (cases "key_of opts env req")
  case (Inl e)
  show ?thesis using assms by (simp add: request_call_unkeyed[OF Inl])
next
  case (Inr key)
  from key_of_url[OF Inr] obtain url where u: "url_of opts env req = Inr url" by blast
  obtain r st1 where l: "cache_lookup now key st = (r, st1)" by (cases "cache_lookup now key st")
  from cache_lookup_ok[OF assms, of now key] l
  have a: "cache_all_ok st1" and b: "\<forall>v. r = Some v \<longrightarrow> ok v" by simp_all
  show ?thesis
  proof (cases r)
    case None
    from start_or_join_frame[of opts key url "method_of req" req st1] a
    show ?thesis
      by (simp add: request_call_keyed[OF u Inr] l None cache_all_ok_def)
  next
    case (Some v)
    with a b show ?thesis by (simp add: request_call_keyed[OF u Inr] l)
  qed
qed

lemma promise_settle_cache:
  "st_cache (promise_settle opts env now p st) \<noteq> st_cache st \<Longrightarrow>
     \<exists>res. promise_outcome (promise_settle opts env now p st) p = Resolved res \<and> ok res"
  by (auto simp: promise_settle_def promise_outcome_def Let_def
      split: pstate.splits outcome.splits option.splits if_splits)

lemma promise_settle_ok:
  assumes "cache_all_ok st"
  shows "cache_all_ok (promise_settle opts env now p st)"
  using assms
  by (auto simp: promise_settle_def cache_all_ok_def Let_def cache_set_ok
      split: pstate.splits outcome.splits option.splits)

lemma run_ok:
  assumes "cache_all_ok st"
  shows "cache_all_ok (snd (run opts env es st)) \<and> (\<forall>r. Hit r \<in> set (fst (run opts env es st)) \<longrightarrow> ok r)"
  using assms
proof (induction es arbitrary: st)
  case Nil
  then show ?case by simp
next
  case (Cons e es)
  show ?case
  proof (cases e)
    case (Call now req)
    from request_call_ok[OF Cons.prems, of opts env now req]
    have a: "cache_all_ok (snd (request_call opts env now req st))"
      and b: "\<forall>r. fst (request_call opts env now req st) = Hit r \<longrightarrow> ok r" by simp_all
    from Cons.IH[OF a] b show ?thesis
      by (auto simp: Call split: prod.splits)
  next
    case (Settle now p)
    from Cons.IH[OF promise_settle_ok[OF Cons.prems, of opts env now p]]
    show ?thesis by (auto simp: Settle split: prod.splits)
  qed
qed

text \<open>
  Claim C5.  From a state whose cache holds successes only (the new cache of a
  client is empty), after any run of calls and settlements the cache still holds
  successes only: whatever \<open>get\<close> returns from it, at any time and for any key, is a
  success, and so is every response a call returned from the cache.  A settlement
  that changes the cache is the settlement of a success.
\<close>

theorem only_success_cached:
  assumes "cache_all_ok st"
  shows "cache_all_ok (snd (run opts env es st))
       \<and> (\<forall>c now key v. st_cache (snd (run opts env es st)) = Some c \<longrightarrow>
              fst (cache_get now key c) = Some v \<longrightarrow> ok v)
       \<and> (\<forall>r. Hit r \<in> set (fst (run opts env es st)) \<longrightarrow> ok r)
       \<and> (\<forall>now p. st_cache (promise_settle opts env now p st) \<noteq> st_cache st \<longrightarrow>
              (\<exists>res. promise_outcome (promise_settle opts env now p st) p = Resolved res \<and> ok res))"
proof -
  note r = run_ok[OF assms, of opts env es]
  have c: "\<forall>c now key v. st_cache (snd (run opts env es st)) = Some c \<longrightarrow>
              fst (cache_get now key c) = Some v \<longrightarrow> ok v"
    using r cache_get_ok by (auto simp: cache_all_ok_def split: option.splits)
  have d: "\<forall>now p. st_cache (promise_settle opts env now p st) \<noteq> st_cache st \<longrightarrow>
              (\<exists>res. promise_outcome (promise_settle opts env now p st) p = Resolved res \<and> ok res)"
    using promise_settle_cache[of opts env _ _ st] by blast
  show ?thesis using r c d by blast
qed

theorem only_success_cached_witness:
  "cache_all_ok (init_state True)
   \<and> cache_all_ok (snd (run demo_options demo_env
         [Call 0 (simple_request ''/users/me'' GET JUndefined), Settle 1 0,
          Call 2 (simple_request ''/users/me'' GET JUndefined)] (init_state True)))
   \<and> fst (run demo_options demo_env
         [Call 0 (simple_request ''/users/me'' GET JUndefined), Settle 1 0,
          Call 2 (simple_request ''/users/me'' GET JUndefined)] (init_state True))
       = [Started 0, Hit (Success 200 [(''content-type'', ''text/plain'')] (JStr ''ok''))]"
proof -
  have h: "cache_all_ok (init_state True)" by code_simp
  from only_success_cached[OF h, of demo_options demo_env
      "[Call 0 (simple_request ''/users/me'' GET JUndefined), Settle 1 0,
        Call 2 (simple_request ''/users/me'' GET JUndefined)]"]
  have a: "cache_all_ok (snd (run demo_options demo_env
         [Call 0 (simple_request ''/users/me'' GET JUndefined), Settle 1 0,
          Call 2 (simple_request ''/users/me'' GET JUndefined)] (init_state True)))"
    by (rule conjunct1)
  have b: "fst (run demo_options demo_env
         [Call 0 (simple_request ''/users/me'' GET JUndefined), Settle 1 0,
          Call 2 (simple_request ''/users/me'' GET JUndefined)] (init_state True))
       = [Started 0, Hit (Success 200 [(''content-type'', ''text/plain'')] (JStr ''ok''))]"
    by code_simp
  show ?thesis by (intro conjI h a b)
qed

subsection \<open>Deriving an encrypted client\<close>







subsection \<open>In-flight deduplication\<close>








lemma cache_lookup_frame:
  "st_tokens (snd (cache_lookup now key st)) = st_tokens st"
  "st_inflight (snd (cache_lookup now key st)) = st_inflight st"
  "st_promises (snd (cache_lookup now key st)) = st_promises st"
  "st_fetches (snd (cache_lookup now key st)) = st_fetches st"
  "st_events (snd (cache_lookup now key st)) = st_events st"
  "st_auth_calls (snd (cache_lookup now key st)) = st_auth_calls st"
  by (simp_all add: cache_lookup_def split: option.splits prod.splits)

















lemma promise_settle_idle:
  "running_key st p = None \<Longrightarrow> promise_settle opts env now p st = st"
  by (auto simp: running_key_def promise_settle_def split: pstate.splits if_splits)



lemma settled_as_Stuck: "settled_as r = Stuck \<longleftrightarrow> r = Pending"
  by (cases r) simp_all




lemma start_or_join_promises:
  "\<exists>xs. st_promises (snd (start_or_join opts key url m req st)) = st_promises st @ xs"
  by (simp add: start_or_join_def split: option.splits)

lemma request_call_promises:
  "\<exists>xs. st_promises (snd (request_call opts env now req st)) = st_promises st @ xs"
proof (cases "key_of opts env req")
  case (Inl e)
  then show ?thesis by (simp add: request_call_unkeyed[OF Inl])
next
  case (Inr key)
  from key_of_url[OF Inr] obtain url where u: "url_of opts env req = Inr url" by blast
  obtain r st1 where l: "cache_lookup now key st = (r, st1)" by (cases "cache_lookup now key st")
  from cache_lookup_frame(3)[of now key st] l have p1: "st_promises st1 = st_promises st" by simp
  show ?thesis
  proof (cases r)
    case None
    from start_or_join_promises[of opts key url "method_of req" req st1] p1
    show ?thesis by (simp add: request_call_keyed[OF u Inr] l None)
  next
    case (Some v)
    with p1 show ?thesis by (simp add: request_call_keyed[OF u Inr] l)
  qed
qed



lemma promise_settle_other:
  assumes "q \<noteq> p" and "p < length (st_promises st)"
  shows "p < length (st_promises (promise_settle opts env now q st))
       \<and> st_promises (promise_settle opts env now q st) ! p = st_promises st ! p"
  using assms
  by (auto simp: promise_settle_def Let_def split: pstate.splits outcome.splits)







lemma run_Cons_snd:
  "snd (run opts env (e # es) st) = snd (run opts env es (snd (step opts env e st)))"
  by (simp split: prod.splits)

lemma settled_stays:
  assumes "p < length (st_promises st)" and "st_promises st ! p = Settled r"
  shows "p < length (st_promises (snd (run opts env es st)))
       \<and> st_promises (snd (run opts env es st)) ! p = Settled r"
  using assms
proof (induction es arbitrary: st)
  case Nil
  then show ?case by simp
next
  case (Cons e es)
  have "p < length (st_promises (snd (step opts env e st)))
        \<and> st_promises (snd (step opts env e st)) ! p = Settled r"
  proof (cases e)
    case (Call now req)
    from request_call_promises[of opts env now req st] obtain xs where
      x: "st_promises (snd (request_call opts env now req st)) = st_promises st @ xs" by blast
    obtain h st' where rc: "request_call opts env now req st = (h, st')"
      by (cases "request_call opts env now req st")
    from x Cons.prems show ?thesis by (simp add: Call rc nth_append)
  next
    case (Settle now q)
    show ?thesis
    proof (cases "q = p")
      case True
      from Cons.prems have "running_key st p = None" by (simp add: running_key_def)
      from promise_settle_idle[OF this] Cons.prems show ?thesis by (simp add: Settle True)
    next
      case False
      from promise_settle_other[OF False Cons.prems(1), of opts env now] Cons.prems(2)
      show ?thesis by (simp add: Settle)
    qed
  qed
  from Cons.IH[of "snd (step opts env e st)"] this
  show ?case unfolding run_Cons_snd by simp
qed


end
